theory Spec2Isabelle
  imports Complex_Main "HOL-Library.Word"
begin

section \<open>tucker.c: the largest tensor-times-matrix output\<close>

text \<open>
  \<^verbatim>\<open>idx_t\<close> is an unsigned machine integer whose width is fixed by a header that is
  not among the sources, so the embedding is polymorphic in the width: \<open>'a word\<close>.
  Multiplication wraps around, as C's unsigned multiplication does. Loop counters stay
  below \<^verbatim>\<open>nmodes\<close>, never wrap, and are natural numbers. The arrays \<^verbatim>\<open>nfactors\<close> and
  \<^verbatim>\<open>tdims\<close> are lists; the theorems give them \<^verbatim>\<open>nmodes\<close> entries, so every read is
  in range.
\<close>

text \<open>
  Modelled from the spec: the macro \<^verbatim>\<open>SS_MAX\<close> is defined in \<^verbatim>\<open>base.h\<close>, which is
  missing. The documentation of \<^verbatim>\<open>__max_tensize\<close> (``Return the maximum required tensor
  size'') takes it to be the larger of its two arguments.
\<close>

definition SS_MAX :: "'a::len word \<Rightarrow> 'a word \<Rightarrow> 'a word" where
  "SS_MAX x y = (if x > y then x else y)"

text \<open>The inner loop of \<^verbatim>\<open>__max_tensize\<close>: \<^verbatim>\<open>for(m2=0; m2 < nmodes; ++m2)\<close>.\<close>

function max_tensize_ncols ::
  "nat \<Rightarrow> 'a::len word list \<Rightarrow> nat \<Rightarrow> nat \<Rightarrow> 'a word \<Rightarrow> 'a word" where
  "max_tensize_ncols nmodes nfactors m m2 ncols =
     (if m2 < nmodes then
        (if m = m2 then max_tensize_ncols nmodes nfactors m (m2 + 1) ncols
         else max_tensize_ncols nmodes nfactors m (m2 + 1) (ncols * nfactors ! m2))
      else ncols)"
  by pat_completeness auto
termination
  by (relation "measure (\<lambda>(nmodes, nfactors, m, m2, ncols). nmodes - m2)") auto

declare max_tensize_ncols.simps [simp del]

text \<open>The outer loop: \<^verbatim>\<open>for(m=0; m < nmodes; ++m)\<close>.\<close>

function max_tensize_modes ::
  "nat \<Rightarrow> 'a::len word list \<Rightarrow> 'a word list \<Rightarrow> nat \<Rightarrow> 'a word \<Rightarrow> 'a word" where
  "max_tensize_modes nmodes nfactors tdims m maxdim =
     (if m < nmodes then
        (let nrows = tdims ! m;
             ncols = max_tensize_ncols nmodes nfactors m 0 1
         in max_tensize_modes nmodes nfactors tdims (m + 1) (SS_MAX maxdim (nrows * ncols)))
      else maxdim)"
  by pat_completeness auto
termination
  by (relation "measure (\<lambda>(nmodes, nfactors, tdims, m, maxdim). nmodes - m)") auto

declare max_tensize_modes.simps [simp del]

definition max_tensize :: "'a::len word \<Rightarrow> 'a word list \<Rightarrow> 'a word list \<Rightarrow> 'a word" where
  "max_tensize nmodes nfactors tdims = max_tensize_modes (unat nmodes) nfactors tdims 0 0"

text \<open>
  The claimed result, in the words of the claim and over the natural numbers: the
  maximum over the modes \<open>m\<close> of \<open>tdims[m]\<close> times the product of \<open>nfactors[m2]\<close> over
  the modes \<open>m2\<close> other than \<open>m\<close>.
\<close>

definition mode_tensize :: "nat \<Rightarrow> nat list \<Rightarrow> nat list \<Rightarrow> nat \<Rightarrow> nat" where
  "mode_tensize nmodes nfactors tdims m =
     tdims ! m * prod_list (map (\<lambda>m2. nfactors ! m2) (filter (\<lambda>m2. m2 \<noteq> m) [0..<nmodes]))"

definition max_tensize_spec :: "nat \<Rightarrow> nat list \<Rightarrow> nat list \<Rightarrow> nat" where
  "max_tensize_spec nmodes nfactors tdims =
     Max (set (map (mode_tensize nmodes nfactors tdims) [0..<nmodes]))"

text \<open>
  The same per-mode size in \<^verbatim>\<open>idx_t\<close> arithmetic: what one pass of the outer loop
  hands to \<^verbatim>\<open>SS_MAX\<close>.
\<close>

definition mode_tensize_w :: "nat \<Rightarrow> 'a::len word list \<Rightarrow> 'a word list \<Rightarrow> nat \<Rightarrow> 'a word" where
  "mode_tensize_w nmodes nfactors tdims m =
     tdims ! m * prod_list (map (\<lambda>m2. nfactors ! m2) (filter (\<lambda>m2. m2 \<noteq> m) [0..<nmodes]))"

section \<open>cmd\_completion.c: argument parsing\<close>

text \<open>
  The command is modelled with its effects made explicit. Functions of the C library
  (\<^verbatim>\<open>strtoull\<close>, \<^verbatim>\<open>strtod\<close>, \<^verbatim>\<open>atoi\<close>, \<^verbatim>\<open>atof\<close>) are parameters, collected in the
  record \<open>libc\<close>: every theorem holds for whatever they return. \<^verbatim>\<open>strtoull\<close> and
  \<^verbatim>\<open>strtod\<close> also return the rest of the string, the position their end pointer is set
  to. \<^verbatim>\<open>idx_t\<close> is the 64-bit unsigned integer of SPLATT's default configuration, the
  type \<^verbatim>\<open>strtoull\<close> returns. \<^verbatim>\<open>val_t\<close> and \<^verbatim>\<open>double\<close> values are only compared with the
  constant \<open>-1\<close> and copied by the code modelled here; they are modelled as \<open>real\<close>.
\<close>

type_synonym idx_t = "64 word"
type_synonym val_t = real

record libc =
  strtoull :: "string \<Rightarrow> 64 word \<times> string"
  strtod :: "string \<Rightarrow> real \<times> string"
  atoi :: "string \<Rightarrow> 32 word"
  atof :: "string \<Rightarrow> real"

text \<open>
  The messages the command writes to \<^verbatim>\<open>stderr\<close>, each with the values its format prints:
  the unknown algorithm name of \<^verbatim>\<open>parse_tc_opt\<close>; the file that \<^verbatim>\<open>fopen\<close> failed on; the
  supported and the found number of modes; and the unknown algorithm of the \<^verbatim>\<open>switch\<close> in
  \<^verbatim>\<open>splatt_tc_cmd\<close>.
\<close>

datatype message =
    Unknown_algorithm_name string
  | Failed_to_open string
  | Too_many_modes nat idx_t
  | Unknown_algorithm

text \<open>
  What stops the program other than a \<^verbatim>\<open>return\<close>: \<^verbatim>\<open>argp_usage\<close>, which prints the usage
  message and exits (the parser is run without \<^verbatim>\<open>ARGP_NO_EXIT\<close>), after the given messages
  were written to \<^verbatim>\<open>stderr\<close>; and the undefined behaviours the code can run into.
\<close>

datatype error =
    Argp_usage "message list"
  | Null_pointer
  | Out_of_bounds
  | Assertion_failed

text \<open>The enumeration \<^verbatim>\<open>splatt_tc_type\<close>; \<^verbatim>\<open>SPLATT_TC_NALGS\<close> is its sentinel.\<close>

datatype splatt_tc_type =
    SPLATT_TC_GD
  | SPLATT_TC_LBFGS
  | SPLATT_TC_NLCG
  | SPLATT_TC_SGD
  | SPLATT_TC_CCD
  | SPLATT_TC_ALS
  | SPLATT_TC_NALGS

text \<open>The table \<^verbatim>\<open>maps\<close>, with its terminating \<^verbatim>\<open>NULL\<close> entry.\<close>

definition maps_tc :: "(string option \<times> splatt_tc_type) list" where
  "maps_tc =
    [ (Some ''gd'', SPLATT_TC_GD),
      (Some ''lbfgs'', SPLATT_TC_LBFGS),
      (Some ''cg'', SPLATT_TC_NLCG),
      (Some ''nlcg'', SPLATT_TC_NLCG),
      (Some ''sgd'', SPLATT_TC_SGD),
      (Some ''als'', SPLATT_TC_ALS),
      (Some ''ccd'', SPLATT_TC_CCD),
      (None, SPLATT_TC_NALGS) ]"

text \<open>
  The loop of \<^verbatim>\<open>parse_tc_alg\<close> over the entries from \<^verbatim>\<open>maps[ptr]\<close> on: it stops at the
  \<^verbatim>\<open>NULL\<close> name; \<^verbatim>\<open>strcmp(arg, name) == 0\<close> is equality of the two strings.
\<close>

fun parse_tc_alg_from :: "(string option \<times> splatt_tc_type) list \<Rightarrow> string \<Rightarrow> splatt_tc_type" where
  "parse_tc_alg_from [] arg = SPLATT_TC_NALGS"
| "parse_tc_alg_from ((None, which) # rest) arg = SPLATT_TC_NALGS"
| "parse_tc_alg_from ((Some name, which) # rest) arg =
     (if arg = name then which else parse_tc_alg_from rest arg)"

definition parse_tc_alg :: "string \<Rightarrow> splatt_tc_type" where
  "parse_tc_alg arg = parse_tc_alg_from maps_tc arg"

text \<open>
  The structure \<^verbatim>\<open>tc_cmd_args\<close>. The field \<^verbatim>\<open>write\<close> is named \<open>write_flag\<close> here.
\<close>

record tc_cmd_args =
  ifnames :: "string option list"
  nfiles :: int
  set_seed :: bool
  seed :: "32 word"
  which_alg :: splatt_tc_type
  write_flag :: bool
  learn_rate :: val_t
  reg :: val_t
  set_tolerance :: bool
  tolerance :: val_t
  max_its :: idx_t
  set_timeout :: bool
  max_seconds :: real
  nfactors :: idx_t
  nthreads :: idx_t
  rand_per_iteration :: bool
  hogwild :: bool
  folds :: idx_t

text \<open>
  \<^verbatim>\<open>default_tc_opts\<close> assigns the fields below and leaves \<^verbatim>\<open>tolerance\<close> and
  \<^verbatim>\<open>max_seconds\<close> as they are in the caller's uninitialised structure. The results of
  \<^verbatim>\<open>time(NULL)\<close> and \<^verbatim>\<open>omp_get_max_threads()\<close> are parameters.
\<close>

definition default_tc_opts :: "32 word \<Rightarrow> idx_t \<Rightarrow> tc_cmd_args \<Rightarrow> tc_cmd_args" where
  "default_tc_opts time_now omp_max_threads args =
     args\<lparr> nfiles := 0,
           ifnames := [None, None, None],
           which_alg := SPLATT_TC_SGD,
           write_flag := False,
           nfactors := 10,
           learn_rate := - 1,
           reg := - 1,
           max_its := 0,
           set_timeout := False,
           nthreads := omp_max_threads,
           set_seed := False,
           seed := time_now,
           set_tolerance := False,
           rand_per_iteration := True,
           hogwild := False,
           folds := 1 \<rparr>"

text \<open>The option keys, and the two keys of \<^verbatim>\<open>argp.h\<close> the parser handles.\<close>

definition TC_REG :: int where "TC_REG = 255"
definition TC_NOWRITE :: int where "TC_NOWRITE = 254"
definition TC_SEED :: int where "TC_SEED = 253"
definition TC_TIME :: int where "TC_TIME = 252"
definition TC_TOL :: int where "TC_TOL = 251"
definition TC_NORAND_PER_ITERATION :: int where "TC_NORAND_PER_ITERATION = 250"
definition TC_HOGWILD :: int where "TC_HOGWILD = 249"
definition TC_FOLD :: int where "TC_FOLD = 248"
definition ARGP_KEY_ARG :: int where "ARGP_KEY_ARG = 0"
definition ARGP_KEY_END :: int where "ARGP_KEY_END = 0x1000001"

definition key_char :: "char \<Rightarrow> int" where
  "key_char c = of_char c"

text \<open>\<^verbatim>\<open>if(arg != NULL && arg[0] == '=') ++arg;\<close>\<close>

fun skip_equals :: "string option \<Rightarrow> string option" where
  "skip_equals (Some (c # cs)) = (if c = CHR ''='' then Some cs else Some (c # cs))"
| "skip_equals a = a"

text \<open>
  A library conversion applied to the option's argument; a \<^verbatim>\<open>NULL\<close> argument is
  dereferenced by the library.
\<close>

definition with_arg :: "string option \<Rightarrow> (string \<Rightarrow> tc_cmd_args) \<Rightarrow> error + tc_cmd_args" where
  "with_arg arg f = (case arg of None \<Rightarrow> Inl Null_pointer | Some s \<Rightarrow> Inr (f s))"

text \<open>
  \<^verbatim>\<open>parse_tc_opt\<close>: one call of the parser, on the state \<^verbatim>\<open>args\<close>. The calls
  \<^verbatim>\<open>omp_set_num_threads\<close> and \<^verbatim>\<open>timer_inc_verbose\<close> change state outside \<^verbatim>\<open>args\<close>
  that nothing modelled here reads. A key without a case leaves \<^verbatim>\<open>args\<close> unchanged.
\<close>

definition parse_tc_opt :: "libc \<Rightarrow> int \<Rightarrow> string option \<Rightarrow> tc_cmd_args \<Rightarrow> error + tc_cmd_args" where
  "parse_tc_opt L key arg0 args =
    (let arg = skip_equals arg0 in
     if key = key_char CHR ''i'' then
       with_arg arg (\<lambda>s. args\<lparr>max_its := fst (strtoull L s)\<rparr>)
     else if key = key_char CHR ''t'' then
       with_arg arg (\<lambda>s. args\<lparr>nthreads := fst (strtoull L s)\<rparr>)
     else if key = key_char CHR ''v'' then
       Inr args
     else if key = key_char CHR ''a'' then
       (case arg of
          None \<Rightarrow> Inl Null_pointer
        | Some s \<Rightarrow>
            if parse_tc_alg s = SPLATT_TC_NALGS
            then Inl (Argp_usage [Unknown_algorithm_name s])
            else Inr (args\<lparr>which_alg := parse_tc_alg s\<rparr>))
     else if key = TC_NOWRITE then
       Inr (args\<lparr>write_flag := False\<rparr>)
     else if key = key_char CHR ''r'' then
       with_arg arg (\<lambda>s. args\<lparr>nfactors := fst (strtoull L s)\<rparr>)
     else if key = key_char CHR ''s'' then
       with_arg arg (\<lambda>s. args\<lparr>learn_rate := fst (strtod L s)\<rparr>)
     else if key = TC_REG then
       with_arg arg (\<lambda>s. args\<lparr>reg := fst (strtod L s)\<rparr>)
     else if key = TC_SEED then
       with_arg arg (\<lambda>s. args\<lparr>seed := atoi L s, set_seed := True\<rparr>)
     else if key = TC_TIME then
       with_arg arg (\<lambda>s. args\<lparr>max_seconds := atof L s, set_timeout := True\<rparr>)
     else if key = TC_TOL then
       with_arg arg (\<lambda>s. args\<lparr>tolerance := atof L s, set_tolerance := True\<rparr>)
     else if key = TC_NORAND_PER_ITERATION then
       Inr (args\<lparr>rand_per_iteration := False\<rparr>)
     else if key = TC_HOGWILD then
       Inr (args\<lparr>hogwild := True\<rparr>)
     else if key = TC_FOLD then
       with_arg arg (\<lambda>s. args\<lparr>folds := scast (atoi L s)\<rparr>)
     else if key = ARGP_KEY_ARG then
       (if nfiles args = 3 then Inl (Argp_usage [])
        else if 0 \<le> nfiles args \<and> nat (nfiles args) < length (ifnames args)
        then Inr (args\<lparr>ifnames := (ifnames args)[nat (nfiles args) := arg],
                       nfiles := nfiles args + 1\<rparr>)
        else Inl Out_of_bounds)
     else if key = ARGP_KEY_END then
       (if 2 \<le> length (ifnames args)
        then (if ifnames args ! 0 = None \<or> ifnames args ! 1 = None
              then Inl (Argp_usage []) else Inr args)
        else Inl Out_of_bounds)
     else Inr args)"

text \<open>
  \<^verbatim>\<open>argp_parse\<close> belongs to the C library. It calls the parser once for every option and
  every argument of the command line, in their order (\<^verbatim>\<open>ARGP_IN_ORDER\<close>), and a last
  time with \<^verbatim>\<open>ARGP_KEY_END\<close>. The calls it makes for a command line are the input of the
  model: pairs of a key and an argument.
\<close>

fun parse_calls :: "libc \<Rightarrow> (int \<times> string option) list \<Rightarrow> tc_cmd_args \<Rightarrow> error + tc_cmd_args" where
  "parse_calls L [] args = Inr args"
| "parse_calls L ((key, arg) # calls) args =
     (case parse_tc_opt L key arg args of
        Inl e \<Rightarrow> Inl e
      | Inr args' \<Rightarrow> parse_calls L calls args')"

definition argp_parse :: "libc \<Rightarrow> (int \<times> string option) list \<Rightarrow> tc_cmd_args \<Rightarrow> error + tc_cmd_args" where
  "argp_parse L calls args = parse_calls L (calls @ [(ARGP_KEY_END, None)]) args"

section \<open>cmd\_completion.c: the distributed load of the validation tensor\<close>

text \<open>
  The structure \<^verbatim>\<open>sptensor_t\<close>: \<open>ind ! m ! k\<close> is the index of entry \<open>k\<close> in mode \<open>m\<close>.
\<close>

record sptensor_t =
  nmodes :: idx_t
  nnz :: idx_t
  dims :: "idx_t list"
  ind :: "idx_t list list"
  vals :: "val_t list"

text \<open>
  The fields of \<^verbatim>\<open>rank_info\<close> the command reads. The arrays \<^verbatim>\<open>layer_starts\<close> and
  \<^verbatim>\<open>layer_ends\<close> have \<^verbatim>\<open>MAX_NMODES\<close> entries and are functions of the index; the code
  modelled here reads entry 0 only.
\<close>

record rank_info =
  rank :: int
  npes :: int
  layer_starts :: "nat \<Rightarrow> idx_t"
  layer_ends :: "nat \<Rightarrow> idx_t"

text \<open>
  A file is the list of its lines, each with its newline, as \<^verbatim>\<open>getline\<close> returns them;
  \<^verbatim>\<open>read\<close> is the length of the line. A line is read as an entry when
  \<^verbatim>\<open>read > 1 && line[0] != '#'\<close>.
\<close>

definition data_line :: "string \<Rightarrow> bool" where
  "data_line line = (1 < length line \<and> hd line \<noteq> CHR ''#'')"

text \<open>
  \<^verbatim>\<open>strtok\<close> with the delimiters \<^verbatim>\<open>" \t"\<close>: the next token and the text after the delimiter
  that ends it, or \<open>None\<close> when only delimiters are left.
\<close>

definition delim :: "char \<Rightarrow> bool" where
  "delim c = (c = CHR '' '' \<or> c = CHR 0x09)"

definition strtok :: "string \<Rightarrow> (string \<times> string) option" where
  "strtok s =
     (let s1 = dropWhile delim s in
      if s1 = [] then None
      else Some (takeWhile (\<lambda>c. \<not> delim c) s1, drop 1 (dropWhile (\<lambda>c. \<not> delim c) s1)))"

lemma strtok_shorter: "strtok s = Some (tok, rest) \<Longrightarrow> length rest < length s"
proof -
  assume a: "strtok s = Some (tok, rest)"
  define s1 where "s1 = dropWhile delim s"
  define d where "d = dropWhile (\<lambda>c. \<not> delim c) s1"
  from a have ne: "s1 \<noteq> []" and rest: "rest = drop 1 d"
    by (auto simp: strtok_def Let_def s1_def d_def split: if_splits)
  have "length d \<le> length s1"
    unfolding d_def by (rule length_dropWhile_le)
  moreover have "length s1 \<le> length s"
    unfolding s1_def by (rule length_dropWhile_le)
  moreover have "0 < length s1"
    using ne by simp
  moreover have "length rest = length d - 1"
    using rest by simp
  ultimately show ?thesis
    by linarith
qed

text \<open>The loop that counts the tokens of the first entry line.\<close>

function count_tokens :: "string \<Rightarrow> idx_t \<Rightarrow> idx_t" where
  "count_tokens s n =
     (case strtok s of
        None \<Rightarrow> n
      | Some (tok, rest) \<Rightarrow> count_tokens rest (n + 1))"
  by pat_completeness auto
termination
  by (relation "measure (\<lambda>(s, n). length s)") (auto dest: strtok_shorter)

declare count_tokens.simps [simp del]

fun first_line_modes :: "string list \<Rightarrow> idx_t" where
  "first_line_modes [] = 0"
| "first_line_modes (line # rest) =
     (if data_line line then count_tokens line 0 else first_line_modes rest)"

text \<open>
  \<^verbatim>\<open>for(m=0; m < nmodes; ++m) outdims[m] = 0;\<close> The array \<^verbatim>\<open>outdims\<close> is the caller's
  \<^verbatim>\<open>dims[MAX_NMODES]\<close>: a write past its end is undefined behaviour.
\<close>

function zero_dims :: "nat \<Rightarrow> nat \<Rightarrow> idx_t list \<Rightarrow> error + idx_t list" where
  "zero_dims nm m outdims =
     (if m < nm then
        (if m < length outdims then zero_dims nm (m + 1) (outdims[m := 0])
         else Inl Out_of_bounds)
      else Inr outdims)"
  by pat_completeness auto
termination
  by (relation "measure (\<lambda>(nm, m, outdims). nm - m)") auto

declare zero_dims.simps [simp del]

text \<open>
  The loop over the modes of one line in \<^verbatim>\<open>tt_get_layer_dims\<close>; \<open>ptr\<close> is the text not
  yet read.
\<close>

function layer_dims_line ::
  "libc \<Rightarrow> rank_info \<Rightarrow> nat \<Rightarrow> nat \<Rightarrow> string \<Rightarrow> bool \<Rightarrow> idx_t list \<Rightarrow>
   error + (string \<times> bool \<times> idx_t list)" where
  "layer_dims_line L rinfo nm m ptr skip outdims =
     (if m < nm then
        (let i = fst (strtoull L ptr) - 1;
             ptr' = snd (strtoull L ptr);
             skip' = (if m = 0 \<and> (i < layer_starts rinfo 0 \<or> layer_ends rinfo 0 \<le> i)
                      then True else skip)
         in if m < length outdims
            then layer_dims_line L rinfo nm (m + 1) ptr' skip'
                   (outdims[m := (if outdims ! m < i + 1 then i + 1 else outdims ! m)])
            else Inl Out_of_bounds)
      else Inr (ptr, skip, outdims))"
  by pat_completeness auto
termination
  by (relation "measure (\<lambda>(L, rinfo, nm, m, ptr, skip, outdims). nm - m)") auto

declare layer_dims_line.simps [simp del]

text \<open>The second \<^verbatim>\<open>getline\<close> loop of \<^verbatim>\<open>tt_get_layer_dims\<close>; \<open>cnt\<close> is its \<^verbatim>\<open>nnz\<close>.\<close>

fun layer_dims_lines ::
  "libc \<Rightarrow> rank_info \<Rightarrow> nat \<Rightarrow> string list \<Rightarrow> idx_t \<Rightarrow> idx_t list \<Rightarrow>
   error + (idx_t \<times> idx_t list)" where
  "layer_dims_lines L rinfo nm [] cnt outdims = Inr (cnt, outdims)"
| "layer_dims_lines L rinfo nm (line # rest) cnt outdims =
     (if data_line line then
        (case layer_dims_line L rinfo nm 0 line False outdims of
           Inl e \<Rightarrow> Inl e
         | Inr (ptr, skip, outdims') \<Rightarrow>
             layer_dims_lines L rinfo nm rest (if \<not> skip then cnt + 1 else cnt) outdims')
      else layer_dims_lines L rinfo nm rest cnt outdims)"

text \<open>
  \<^verbatim>\<open>tt_get_layer_dims\<close>: the number of modes, the number of entries of the layer and the
  dimensions. The lines of \<^verbatim>\<open>fin\<close> are read from the start in each loop (\<^verbatim>\<open>rewind\<close>).
\<close>

definition tt_get_layer_dims ::
  "libc \<Rightarrow> string list \<Rightarrow> idx_t list \<Rightarrow> rank_info \<Rightarrow> error + (idx_t \<times> idx_t \<times> idx_t list)" where
  "tt_get_layer_dims L fin outdims rinfo =
     (let nm = first_line_modes fin - 1 in
      case zero_dims (unat nm) 0 outdims of
        Inl e \<Rightarrow> Inl e
      | Inr outdims1 \<Rightarrow>
          (case layer_dims_lines L rinfo (unat nm) fin 0 outdims1 of
             Inl e \<Rightarrow> Inl e
           | Inr (cnt, outdims2) \<Rightarrow>
               if 0 < length outdims2
               then Inr (nm, cnt, outdims2[0 := layer_ends rinfo 0 - layer_starts rinfo 0])
               else Inl Out_of_bounds))"

text \<open>
  Modelled from the spec: \<^verbatim>\<open>tt_alloc\<close> is defined in \<^verbatim>\<open>sptensor.c\<close>, which is missing. By
  the spec's data model a tensor of \<open>N\<close> modes and \<open>nnz\<close> entries holds \<open>dims[N]\<close>, an index
  array \<open>ind[m]\<close> of \<open>nnz\<close> entries for each mode and \<open>nnz\<close> values. The memory it
  allocates is filled with 0 here; the load below overwrites every entry.
\<close>

definition tt_alloc :: "idx_t \<Rightarrow> idx_t \<Rightarrow> sptensor_t" where
  "tt_alloc cnt nm =
     \<lparr> nmodes = nm, nnz = cnt,
       dims = replicate (unat nm) 0,
       ind = replicate (unat nm) (replicate (unat cnt) 0),
       vals = replicate (unat cnt) 0 \<rparr>"

text \<open>\<^verbatim>\<open>validate->ind[m][k] = v\<close>: a write outside the arrays is undefined behaviour.\<close>

definition store_ind :: "sptensor_t \<Rightarrow> nat \<Rightarrow> nat \<Rightarrow> idx_t \<Rightarrow> error + sptensor_t" where
  "store_ind tt m k v =
     (if m < length (ind tt) \<and> k < length (ind tt ! m)
      then Inr (tt\<lparr>ind := (ind tt)[m := (ind tt ! m)[k := v]]\<rparr>)
      else Inl Out_of_bounds)"

text \<open>
  The loop over the modes of one line in the second pass (in \<^verbatim>\<open>splatt_tc_cmd\<close>); \<open>k\<close> is
  the current \<^verbatim>\<open>nnz\<close>.
\<close>

function fill_line ::
  "libc \<Rightarrow> rank_info \<Rightarrow> nat \<Rightarrow> nat \<Rightarrow> nat \<Rightarrow> string \<Rightarrow> bool \<Rightarrow> sptensor_t \<Rightarrow>
   error + (string \<times> bool \<times> sptensor_t)" where
  "fill_line L rinfo nm k m ptr skip validate =
     (if m < nm then
        (let i = fst (strtoull L ptr) - 1;
             ptr' = snd (strtoull L ptr)
         in if 0 = m then
              (if i < layer_starts rinfo 0 \<or> layer_ends rinfo 0 \<le> i
               then fill_line L rinfo nm k (m + 1) ptr' True validate
               else (case store_ind validate m k (i - layer_starts rinfo 0) of
                       Inl e \<Rightarrow> Inl e
                     | Inr validate' \<Rightarrow> fill_line L rinfo nm k (m + 1) ptr' skip validate'))
            else if \<not> skip then
              (case store_ind validate m k i of
                 Inl e \<Rightarrow> Inl e
               | Inr validate' \<Rightarrow> fill_line L rinfo nm k (m + 1) ptr' skip validate')
            else fill_line L rinfo nm k (m + 1) ptr' skip validate)
      else Inr (ptr, skip, validate))"
  by pat_completeness auto
termination
  by (relation "measure (\<lambda>(L, rinfo, nm, k, m, ptr, skip, validate). nm - m)") auto

declare fill_line.simps [simp del]

text \<open>
  The \<^verbatim>\<open>getline\<close> loop of the second pass; \<open>cnt\<close> is \<^verbatim>\<open>nnz\<close>, which the loop starts at 0.
\<close>

fun fill_lines ::
  "libc \<Rightarrow> rank_info \<Rightarrow> nat \<Rightarrow> string list \<Rightarrow> idx_t \<Rightarrow> sptensor_t \<Rightarrow>
   error + (idx_t \<times> sptensor_t)" where
  "fill_lines L rinfo nm [] cnt validate = Inr (cnt, validate)"
| "fill_lines L rinfo nm (line # rest) cnt validate =
     (if data_line line then
        (case fill_line L rinfo nm (unat cnt) 0 line False validate of
           Inl e \<Rightarrow> Inl e
         | Inr (ptr, skip, validate1) \<Rightarrow>
             (let v = fst (strtod L ptr) in
              if \<not> skip then
                (if unat cnt < length (vals validate1) then
                   (let validate2 = validate1\<lparr>vals := (vals validate1)[unat cnt := v]\<rparr> in
                    if cnt + 1 \<le> nnz validate2
                    then fill_lines L rinfo nm rest (cnt + 1) validate2
                    else Inl Assertion_failed)
                 else Inl Out_of_bounds)
              else fill_lines L rinfo nm rest cnt validate1))
      else fill_lines L rinfo nm rest cnt validate)"

text \<open>
  The block of \<^verbatim>\<open>splatt_tc_cmd\<close> that loads the validation tensor of one worker, from
  \<^verbatim>\<open>tt_get_layer_dims\<close> to the end of the second pass. \<open>max_nmodes\<close> is \<^verbatim>\<open>MAX_NMODES\<close>, a
  macro of a missing header; \<open>dims0\<close> is the content of the uninitialised array
  \<^verbatim>\<open>dims[MAX_NMODES]\<close>. The result is the tensor, or the number of modes found when the
  block ends in \<^verbatim>\<open>return SPLATT_ERROR_BADINPUT\<close> because that number is above \<^verbatim>\<open>MAX_NMODES\<close>.
\<close>

datatype loaded = Loaded sptensor_t | Mode_limit idx_t

definition load_validate ::
  "libc \<Rightarrow> nat \<Rightarrow> rank_info \<Rightarrow> string list \<Rightarrow> idx_t list \<Rightarrow> error + loaded" where
  "load_validate L max_nmodes rinfo fin dims0 =
     (case tt_get_layer_dims L fin dims0 rinfo of
        Inl e \<Rightarrow> Inl e
      | Inr (nm, cnt, dims1) \<Rightarrow>
          if max_nmodes < unat nm then Inr (Mode_limit nm)
          else
            (let validate = tt_alloc cnt nm;
                 validate' = validate\<lparr>dims := take (unat nm) dims1 @ drop (unat nm) (dims validate)\<rparr>
             in case fill_lines L rinfo (unat nm) fin 0 validate' of
                  Inl e \<Rightarrow> Inl e
                | Inr (cnt', validate'') \<Rightarrow> Inr (Loaded validate'')))"







section \<open>cmd\_completion.c: the command\<close>

text \<open>
  The factor model and the workspace. Of \<^verbatim>\<open>tc_model\<close> the command reads \<^verbatim>\<open>rank\<close>, \<^verbatim>\<open>dims\<close>
  and \<^verbatim>\<open>factors\<close>, named \<open>model_rank\<close> and \<open>model_dims\<close> here; of \<^verbatim>\<open>tc_ws\<close> it reads and
  writes the fields below (\<^verbatim>\<open>rinfo\<close> is named \<open>ws_rinfo\<close>). Several fields of \<^verbatim>\<open>tc_ws\<close> have
  the names of fields of \<^verbatim>\<open>tc_cmd_args\<close>; where both are meant they are written with the
  name of their record.
\<close>

record tc_model =
  model_rank :: idx_t
  model_dims :: "idx_t list"
  factors :: "val_t list list"

record tc_ws =
  learn_rate :: val_t
  regularization :: "val_t list"
  max_its :: idx_t
  max_seconds :: real
  tolerance :: val_t
  rand_per_iteration :: bool
  hogwild :: bool
  folds :: idx_t
  nthreads :: idx_t
  best_rmse :: val_t
  best_epoch :: idx_t
  best_model :: "tc_model option"
  ws_rinfo :: "rank_info option"
  global_validate_nnz :: idx_t

text \<open>
  \<^verbatim>\<open>for(m=0; m < nmodes; ++m) ws->regularization[m] = args.reg;\<close> on the array
  \<^verbatim>\<open>regularization\<close> of the workspace.
\<close>

function set_regularization :: "val_t \<Rightarrow> nat \<Rightarrow> nat \<Rightarrow> val_t list \<Rightarrow> error + val_t list" where
  "set_regularization r nm m regs =
     (if m < nm then
        (if m < length regs then set_regularization r nm (m + 1) (regs[m := r])
         else Inl Out_of_bounds)
      else Inr regs)"
  by pat_completeness auto
termination
  by (relation "measure (\<lambda>(r, nm, m, regs). nm - m)") auto

declare set_regularization.simps [simp del]

text \<open>
  ``check for non-default vals'': the block of \<^verbatim>\<open>splatt_tc_cmd\<close> that copies the caller's
  settings into the workspace; \<open>nm\<close> is \<^verbatim>\<open>train->nmodes\<close>.
\<close>

definition tc_cmd_overrides :: "tc_cmd_args \<Rightarrow> idx_t \<Rightarrow> tc_ws \<Rightarrow> error + tc_ws" where
  "tc_cmd_overrides args nm ws =
     (let ws1 = (if tc_cmd_args.learn_rate args \<noteq> - 1
                 then ws\<lparr>tc_ws.learn_rate := tc_cmd_args.learn_rate args\<rparr> else ws)
      in case (if reg args \<noteq> - 1
               then set_regularization (reg args) (unat nm) 0 (regularization ws1)
               else Inr (regularization ws1)) of
           Inl e \<Rightarrow> Inl e
         | Inr regs \<Rightarrow>
             (let ws2 = ws1\<lparr>regularization := regs\<rparr>;
                  ws3 = (if tc_cmd_args.max_its args \<noteq> 0
                         then ws2\<lparr>tc_ws.max_its := tc_cmd_args.max_its args\<rparr> else ws2);
                  ws4 = (if set_timeout args
                         then ws3\<lparr>tc_ws.max_seconds := tc_cmd_args.max_seconds args\<rparr> else ws3);
                  ws5 = (if set_tolerance args
                         then ws4\<lparr>tc_ws.tolerance := tc_cmd_args.tolerance args\<rparr> else ws4)
              in Inr (ws5\<lparr>tc_ws.rand_per_iteration := tc_cmd_args.rand_per_iteration args,
                          tc_ws.hogwild := tc_cmd_args.hogwild args,
                          tc_ws.folds := tc_cmd_args.folds args\<rparr>)))"

text \<open>
  What the command does to the outside, in order, is a list of events; how it ends is an
  outcome: a returned code, or an \<open>error\<close>. \<^verbatim>\<open>EXIT_SUCCESS\<close> is the C library's and
  \<^verbatim>\<open>SPLATT_ERROR_BADINPUT\<close> a constant of a missing header; both are kept symbolic.
\<close>

datatype retcode = EXIT_SUCCESS | SPLATT_ERROR_BADINPUT

datatype outcome = Return retcode | Halt error

datatype event =
    Print_header
  | Srand "32 word"
  | Stderr message
  | Print_stats
  | Print_config
  | Print_alg splatt_tc_type
  | Train splatt_tc_type
  | Print_validation idx_t val_t val_t idx_t
  | Print_test idx_t val_t val_t
  | Mat_write nat

type_synonym 'a step = "event list \<times> (outcome + 'a)"

definition and_then :: "'a step \<Rightarrow> ('a \<Rightarrow> 'b step) \<Rightarrow> 'b step" where
  "and_then s f =
     (case s of
        (evs, Inl out) \<Rightarrow> (evs, Inl out)
      | (evs, Inr x) \<Rightarrow> (case f x of (evs', r) \<Rightarrow> (evs @ evs', r)))"

text \<open>
  The compile-time configuration: whether \<^verbatim>\<open>SPLATT_USE_MPI\<close> is defined, and \<^verbatim>\<open>MAX_NMODES\<close>.
\<close>

record build =
  SPLATT_USE_MPI :: bool
  MAX_NMODES :: nat

text \<open>
  The surroundings of the command: the clock, the number of threads, the content of its
  uninitialised variables, the MPI rank and size and the sum \<^verbatim>\<open>MPI_Allreduce\<close> returns for
  this worker's contribution, the files, and the functions of the repository that are
  not in \<^verbatim>\<open>cmd_completion.c\<close> (the loaders, the allocators, the six training functions
  \<open>splatt_tc\<close>, and the evaluators). All are parameters. The allocator of the model and the
  training functions draw from the C library's generator, whose state \<^verbatim>\<open>srand\<close> has set:
  they take the seed given to \<^verbatim>\<open>srand\<close> as their first argument. What else may vary between
  two runs of them (the scheduling of their threads) is not modelled.
\<close>

record env =
  time_now :: "32 word"
  omp_max_threads :: idx_t
  stack_args :: tc_cmd_args
  stack_dims :: "nat \<Rightarrow> idx_t"
  stack_rinfo :: rank_info
  mpi_rank :: int
  mpi_npes :: int
  mpi_allreduce_sum :: "idx_t \<Rightarrow> idx_t"
  fopen :: "string \<Rightarrow> string list option"
  tt_read :: "string \<Rightarrow> sptensor_t option"
  mpi_tt_read :: "string \<Rightarrow> rank_info \<Rightarrow> sptensor_t option \<times> rank_info"
  tc_model_alloc :: "32 word \<Rightarrow> sptensor_t \<Rightarrow> idx_t \<Rightarrow> splatt_tc_type \<Rightarrow> tc_model"
  tc_ws_alloc :: "sptensor_t \<Rightarrow> tc_model \<Rightarrow> idx_t \<Rightarrow> tc_ws"
  splatt_tc :: "32 word \<Rightarrow> splatt_tc_type \<Rightarrow> sptensor_t \<Rightarrow> sptensor_t \<Rightarrow> tc_model \<Rightarrow> tc_ws \<Rightarrow>
                tc_model \<times> tc_ws"
  tc_rmse :: "sptensor_t \<Rightarrow> tc_model option \<Rightarrow> tc_ws \<Rightarrow> val_t"
  tc_mae :: "sptensor_t \<Rightarrow> tc_model option \<Rightarrow> tc_ws \<Rightarrow> val_t"

text \<open>Output that only rank 0 prints in the MPI build.\<close>

definition on_rank0 :: "build \<Rightarrow> rank_info \<Rightarrow> event list \<Rightarrow> event list" where
  "on_rank0 B rinfo evs = (if SPLATT_USE_MPI B \<and> rank rinfo \<noteq> 0 then [] else evs)"

text \<open>A file name handed to a loader: \<^verbatim>\<open>NULL\<close> is dereferenced there.\<close>

definition file_name :: "tc_cmd_args \<Rightarrow> nat \<Rightarrow> string step" where
  "file_name args n =
     (if n < length (ifnames args)
      then (case ifnames args ! n of
              None \<Rightarrow> ([], Inl (Halt Null_pointer))
            | Some f \<Rightarrow> ([], Inr f))
      else ([], Inl (Halt Out_of_bounds)))"

text \<open>
  Loading the two tensors. Without MPI both are read by \<^verbatim>\<open>tt_read\<close>. With MPI the
  training tensor is read by \<^verbatim>\<open>mpi_tt_read\<close>, which also sets the worker's layer in
  \<^verbatim>\<open>rinfo\<close>, and the validation tensor by the two passes modelled above, after which its
  \<^verbatim>\<open>nnz\<close> is summed over the workers. The result holds the two tensors (\<open>None\<close> is
  \<^verbatim>\<open>NULL\<close>), \<^verbatim>\<open>rinfo\<close> and \<^verbatim>\<open>global_validate_nnz\<close>.
\<close>

definition init_rinfo :: "build \<Rightarrow> env \<Rightarrow> rank_info" where
  "init_rinfo B E =
     (stack_rinfo E)\<lparr> rank := mpi_rank E, npes := mpi_npes E,
       layer_starts := (\<lambda>m. if m < MAX_NMODES B then 0 else layer_starts (stack_rinfo E) m) \<rparr>"

definition tc_cmd_load ::
  "build \<Rightarrow> libc \<Rightarrow> env \<Rightarrow> tc_cmd_args \<Rightarrow>
   (sptensor_t option \<times> sptensor_t option \<times> rank_info \<times> idx_t) step" where
  "tc_cmd_load B L E args =
     (if SPLATT_USE_MPI B then
        and_then (file_name args 0) (\<lambda>f0.
          (case mpi_tt_read E f0 (init_rinfo B E) of
             (train, rinfo) \<Rightarrow>
               and_then (file_name args 1) (\<lambda>f1.
                 (case fopen E f1 of
                    None \<Rightarrow> ([Stderr (Failed_to_open f1)],
                              Inl (Return SPLATT_ERROR_BADINPUT))
                  | Some fin \<Rightarrow>
                      (case load_validate L (MAX_NMODES B) rinfo fin
                              (map (stack_dims E) [0..<MAX_NMODES B]) of
                         Inl e \<Rightarrow> ([], Inl (Halt e))
                       | Inr (Mode_limit nm) \<Rightarrow> ([Stderr (Too_many_modes (MAX_NMODES B) nm)],
                                      Inl (Return SPLATT_ERROR_BADINPUT))
                       | Inr (Loaded v) \<Rightarrow>
                           ([], Inr (train, Some v, rinfo, mpi_allreduce_sum E (nnz v))))))))
      else
        and_then (file_name args 0) (\<lambda>f0.
          and_then (file_name args 1) (\<lambda>f1.
            ([], Inr (tt_read E f0, tt_read E f1, init_rinfo B E, 0)))))"

text \<open>
  The \<^verbatim>\<open>switch\<close> on the algorithm: the call of the training function, which works on the
  model and the workspace. With MPI the SGD case first stores \<^verbatim>\<open>rinfo\<close> and
  \<^verbatim>\<open>global_validate_nnz\<close> in the workspace.
\<close>

definition tc_cmd_train ::
  "build \<Rightarrow> env \<Rightarrow> tc_cmd_args \<Rightarrow> rank_info \<Rightarrow> idx_t \<Rightarrow> sptensor_t \<Rightarrow> sptensor_t \<Rightarrow>
   tc_model \<Rightarrow> tc_ws \<Rightarrow> (tc_model \<times> tc_ws) step" where
  "tc_cmd_train B E args rinfo gnnz train v model ws =
     (if which_alg args = SPLATT_TC_NALGS then
        ([Stderr Unknown_algorithm], Inl (Return SPLATT_ERROR_BADINPUT))
      else if which_alg args = SPLATT_TC_SGD then
        (let ws' = (if SPLATT_USE_MPI B
                    then ws\<lparr>ws_rinfo := Some rinfo, global_validate_nnz := gnnz\<rparr> else ws)
         in (on_rank0 B rinfo [Print_alg SPLATT_TC_SGD] @ [Train SPLATT_TC_SGD],
             Inr (splatt_tc E (seed args) SPLATT_TC_SGD train v model ws')))
      else
        ([Print_alg (which_alg args), Train (which_alg args)],
         Inr (splatt_tc E (seed args) (which_alg args) train v model ws)))"

text \<open>The report on the validation tensor.\<close>

definition tc_cmd_report :: "build \<Rightarrow> env \<Rightarrow> rank_info \<Rightarrow> sptensor_t \<Rightarrow> tc_ws \<Rightarrow> event list" where
  "tc_cmd_report B E rinfo v ws =
     (if SPLATT_USE_MPI B
      then on_rank0 B rinfo
             [Print_validation (global_validate_nnz ws) (best_rmse ws)
                (tc_mae E v (best_model ws) ws) (best_epoch ws)]
      else [Print_validation (nnz v) (best_rmse ws)
                (tc_mae E v (best_model ws) ws) (best_epoch ws)])"

text \<open>``test rmse on best model found'': only when a third file was named.\<close>

definition tc_cmd_test :: "env \<Rightarrow> tc_cmd_args \<Rightarrow> tc_ws \<Rightarrow> unit step" where
  "tc_cmd_test E args ws =
     (if 2 < length (ifnames args) then
        (case ifnames args ! 2 of
           None \<Rightarrow> ([], Inr ())
         | Some f2 \<Rightarrow>
             (case tt_read E f2 of
                None \<Rightarrow> ([], Inl (Return SPLATT_ERROR_BADINPUT))
              | Some test \<Rightarrow>
                  ([Print_test (nnz test) (tc_rmse E test (best_model ws) ws)
                      (tc_mae E test (best_model ws) ws)], Inr ())))
      else ([], Inl (Halt Out_of_bounds)))"

text \<open>
  ``write the best model'': one \<^verbatim>\<open>mat_write\<close> per mode, of the factor matrix of the best
  model, which the loop dereferences.
\<close>

function write_modes :: "tc_ws \<Rightarrow> nat \<Rightarrow> nat \<Rightarrow> unit step" where
  "write_modes ws nm m =
     (if m < nm then
        (case best_model ws of
           None \<Rightarrow> ([], Inl (Halt Null_pointer))
         | Some best \<Rightarrow>
             if m < length (model_dims best) \<and> m < length (factors best)
             then and_then ([Mat_write m], Inr ()) (\<lambda>u. write_modes ws nm (m + 1))
             else ([], Inl (Halt Out_of_bounds)))
      else ([], Inr ()))"
  by pat_completeness auto
termination
  by (relation "measure (\<lambda>(ws, nm, m). nm - m)") auto

declare write_modes.simps [simp del]

definition tc_cmd_write :: "tc_cmd_args \<Rightarrow> idx_t \<Rightarrow> tc_ws \<Rightarrow> unit step" where
  "tc_cmd_write args nm ws =
     (if write_flag args then write_modes ws (unat nm) 0 else ([], Inr ()))"

text \<open>
  \<^verbatim>\<open>splatt_tc_cmd\<close>, after the arguments were parsed, in three parts. The last one runs
  from the report on the validation tensor to \<^verbatim>\<open>return EXIT_SUCCESS\<close>; \<open>nm\<close> is
  \<^verbatim>\<open>train->nmodes\<close>.
\<close>

definition tc_cmd_finish ::
  "build \<Rightarrow> env \<Rightarrow> tc_cmd_args \<Rightarrow> rank_info \<Rightarrow> sptensor_t \<Rightarrow> idx_t \<Rightarrow> tc_ws \<Rightarrow> retcode step" where
  "tc_cmd_finish B E args rinfo v nm ws =
     and_then (tc_cmd_report B E rinfo v ws, Inr ()) (\<lambda>u.
     and_then (tc_cmd_test E args ws) (\<lambda>u.
     and_then (tc_cmd_write args nm ws) (\<lambda>u.
       ([], Inr EXIT_SUCCESS))))"

text \<open>The middle part: from the statistics of the training tensor to the training.\<close>

definition tc_cmd_factor ::
  "build \<Rightarrow> env \<Rightarrow> tc_cmd_args \<Rightarrow> rank_info \<Rightarrow> idx_t \<Rightarrow> sptensor_t \<Rightarrow> sptensor_t \<Rightarrow>
   retcode step" where
  "tc_cmd_factor B E args rinfo gnnz train v =
     and_then (on_rank0 B rinfo [Print_stats], Inr ()) (\<lambda>u.
       (let model = tc_model_alloc E (seed args) train (nfactors args) (which_alg args);
            ws0 = tc_ws_alloc E train model (tc_cmd_args.nthreads args)
        in case tc_cmd_overrides args (nmodes train) ws0 of
             Inl e \<Rightarrow> ([], Inl (Halt e))
           | Inr ws \<Rightarrow>
               and_then (on_rank0 B rinfo [Print_config], Inr ()) (\<lambda>u.
               and_then (tc_cmd_train B E args rinfo gnnz train v model ws) (\<lambda>(model', ws').
                 tc_cmd_finish B E args rinfo v (nmodes train) ws'))))"

text \<open>
  The first part: the header, the seed, the two tensors, and
  \<^verbatim>\<open>if(train == NULL || validate == NULL) return SPLATT_ERROR_BADINPUT;\<close>
\<close>

definition tc_cmd_run :: "build \<Rightarrow> libc \<Rightarrow> env \<Rightarrow> tc_cmd_args \<Rightarrow> retcode step" where
  "tc_cmd_run B L E args =
     and_then (on_rank0 B (init_rinfo B E) [Print_header] @ [Srand (seed args)], Inr ()) (\<lambda>u.
     and_then (tc_cmd_load B L E args) (\<lambda>(train_opt, validate_opt, rinfo, gnnz).
       (case (train_opt, validate_opt) of
          (Some train, Some v) \<Rightarrow> tc_cmd_factor B E args rinfo gnnz train v
        | _ \<Rightarrow> ([], Inl (Return SPLATT_ERROR_BADINPUT)))))"

text \<open>
  \<^verbatim>\<open>splatt_tc_cmd\<close>: the events and the outcome of the command on the calls \<^verbatim>\<open>argp_parse\<close>
  makes for its command line.
\<close>

definition splatt_tc_cmd ::
  "build \<Rightarrow> libc \<Rightarrow> env \<Rightarrow> (int \<times> string option) list \<Rightarrow> event list \<times> outcome" where
  "splatt_tc_cmd B L E calls =
     (case argp_parse L calls (default_tc_opts (time_now E) (omp_max_threads E) (stack_args E)) of
        Inl e \<Rightarrow> ([], Halt e)
      | Inr args \<Rightarrow>
          (case tc_cmd_run B L E args of
             (evs, Inl out) \<Rightarrow> (evs, out)
           | (evs, Inr code) \<Rightarrow> (evs, Return code)))"

text \<open>
  An example of the C library's conversions, for running the code on concrete input:
  white space is skipped, then decimal digits are read, for \<^verbatim>\<open>strtod\<close> with an optional
  fraction after a point. Signs, exponents and the saturation of \<^verbatim>\<open>strtoull\<close> are left out:
  the inputs evaluated below do not need them.
\<close>

definition is_space :: "char \<Rightarrow> bool" where
  "is_space c = (c = CHR '' '' \<or> c = CHR 0x09 \<or> c = CHR 0x0A)"

definition is_digit :: "char \<Rightarrow> bool" where
  "is_digit c = (48 \<le> (of_char c :: nat) \<and> (of_char c :: nat) \<le> 57)"

fun read_digits :: "string \<Rightarrow> nat \<Rightarrow> nat \<times> string" where
  "read_digits [] acc = (acc, [])"
| "read_digits (c # cs) acc =
     (if is_digit c then read_digits cs (10 * acc + (of_char c - 48)) else (acc, c # cs))"

definition example_strtoull :: "string \<Rightarrow> 64 word \<times> string" where
  "example_strtoull s =
     (case read_digits (dropWhile is_space s) 0 of (n, rest) \<Rightarrow> (of_nat n, rest))"

definition example_strtod :: "string \<Rightarrow> real \<times> string" where
  "example_strtod s =
     (case read_digits (dropWhile is_space s) 0 of
        (n, rest) \<Rightarrow>
          (case rest of
             c # cs \<Rightarrow>
               if c = CHR ''.''
               then (case read_digits cs 0 of
                       (f, rest') \<Rightarrow>
                         (real n + real f / 10 ^ (length cs - length rest'), rest'))
               else (real n, rest)
           | [] \<Rightarrow> (real n, rest)))"

definition example_libc :: libc where
  "example_libc =
     \<lparr> strtoull = example_strtoull, strtod = example_strtod,
       atoi = (\<lambda>s. ucast (fst (example_strtoull s))),
       atof = (\<lambda>s. fst (example_strtod s)) \<rparr>"


definition example_tensor :: sptensor_t where
  "example_tensor = \<lparr> nmodes = 3, nnz = 1, dims = [1, 1, 1], ind = [[0], [0], [0]], vals = [1] \<rparr>"

definition example_ws :: tc_ws where
  "example_ws =
     \<lparr> learn_rate = 1 / 1000, regularization = replicate 8 (1 / 50), max_its = 500,
       max_seconds = 1000, tolerance = 1 / 10000, rand_per_iteration = True, hogwild = False,
       folds = 1, nthreads = 1, best_rmse = 0, best_epoch = 0, best_model = None,
       ws_rinfo = None, global_validate_nnz = 0 \<rparr>"

definition example_rinfo :: rank_info where
  "example_rinfo = \<lparr> rank = 0, npes = 1, layer_starts = (\<lambda>m. 0), layer_ends = (\<lambda>m. 0) \<rparr>"

text \<open>
  The second of two workers, with the mode-0 range \<open>[2, 4)\<close>, and a validation file of one
  comment and three entries of three modes.
\<close>

definition example_layer :: rank_info where
  "example_layer =
     \<lparr> rank = 1, npes = 2, layer_starts = (\<lambda>m. if m = 0 then 2 else 0),
       layer_ends = (\<lambda>m. if m = 0 then 4 else 0) \<rparr>"

definition example_file :: "string list" where
  "example_file =
     [ ''# held out'' @ [CHR 0x0A],
       ''1 1 1 1.0'' @ [CHR 0x0A],
       ''3 2 1 2.0'' @ [CHR 0x0A],
       ''4 1 2 0.5'' @ [CHR 0x0A] ]"

definition example_env :: env where
  "example_env =
     \<lparr> time_now = 0, omp_max_threads = 1,
       stack_args =
         \<lparr> ifnames = [], nfiles = 0, set_seed = False, seed = 0, which_alg = SPLATT_TC_NALGS,
           write_flag = True, learn_rate = 0, reg = 0, set_tolerance = True, tolerance = 0,
           max_its = 0, set_timeout = True, max_seconds = 0, nfactors = 0, nthreads = 0,
           rand_per_iteration = False, hogwild = True, folds = 0 \<rparr>,
       stack_dims = (\<lambda>m. 0), stack_rinfo = example_rinfo, mpi_rank = 0, mpi_npes = 1,
       mpi_allreduce_sum = (\<lambda>x. x),
       fopen = (\<lambda>f. None),
       tt_read = (\<lambda>f. if f = ''train.tns'' \<or> f = ''validate.tns''
                        then Some example_tensor else None),
       mpi_tt_read = (\<lambda>f r. (None, r)),
       tc_model_alloc = (\<lambda>s t r a. \<lparr> model_rank = r, model_dims = dims t, factors = [] \<rparr>),
       tc_ws_alloc = (\<lambda>t m n. example_ws),
       splatt_tc = (\<lambda>s a t v m w. (m, w)),
       tc_rmse = (\<lambda>t m w. 0),
       tc_mae = (\<lambda>t m w. 0) \<rparr>"

text \<open>
  Example surroundings of the distributed build: the first of two workers, to which
  \<^verbatim>\<open>mpi_tt_read\<close> gives the example tensor for \<^verbatim>\<open>train.tns\<close> and the mode-0 range \<open>[0, 2)\<close>.
  The file \<^verbatim>\<open>validate.tns\<close> is the example file; this worker keeps one of its three
  entries and the other worker two, so the reduction returns this worker's count plus 2.
\<close>

definition example_mpi_build :: build where
  "example_mpi_build = \<lparr> SPLATT_USE_MPI = True, MAX_NMODES = 8 \<rparr>"

definition example_mpi_env :: env where
  "example_mpi_env =
     example_env
       \<lparr> mpi_rank := 0, mpi_npes := 2,
         mpi_allreduce_sum := (\<lambda>x. x + 2),
         fopen := (\<lambda>f. if f = ''validate.tns'' then Some example_file else None),
         mpi_tt_read :=
           (\<lambda>f r. if f = ''train.tns''
                  then (Some example_tensor,
                        r\<lparr>layer_starts := (\<lambda>m. 0), layer_ends := (\<lambda>m. if m = 0 then 2 else 1)\<rparr>)
                  else (None, r)) \<rparr>"

section \<open>The training loop and its best-model policy\<close>

text \<open>
  Modelled from the spec: the training functions (\<^verbatim>\<open>splatt_tc_sgd\<close> and the others) and the
  convergence test they share are in \<^verbatim>\<open>completion.c\<close> and its siblings, which are missing.
  The loop below is the state machine of the spec's section 4.3, for any kind of model
  \<open>'m\<close>. Its parameters are the epoch update \<open>step e m\<close> (the model after epoch \<open>e\<close>), the
  validation score \<open>rmse m\<close> and the wall-clock time \<open>clock e\<close> elapsed after epoch \<open>e\<close>; the
  bounds \<^verbatim>\<open>max_its\<close>, \<^verbatim>\<open>max_seconds\<close> and \<^verbatim>\<open>tolerance\<close> are those of the workspace. The state
  holds the live model, the best-model slot (\<open>None\<close> before the first evaluation), the
  best score (\<open>None\<close> is the worst possible score, \<open>+\<infinity>\<close>), the epoch of the best model, the
  count of consecutive epochs without improvement and the count of epochs.
\<close>

record 'm tc_loop_state =
  live :: 'm
  best :: "'m option"
  best_score :: "real option"
  best_epoch :: nat
  stall :: nat
  epoch :: nat

datatype tc_stop = CONVERGED | TIMED_OUT | MAX_ITERS_REACHED

text \<open>
  Modelled from the spec: INIT, where the best score is the worst possible one and the
  best epoch is 0.
\<close>

definition tc_loop_init :: "'m \<Rightarrow> 'm tc_loop_state" where
  "tc_loop_init m = \<lparr> live = m, best = None, best_score = None, best_epoch = 0, stall = 0, epoch = 0 \<rparr>"

text \<open>
  Modelled from the spec: VALIDATING, where the score ``improves on
  \<open>best_score - tolerance\<close> (strict improvement beyond tolerance)''.
\<close>

definition improves :: "tc_ws \<Rightarrow> real option \<Rightarrow> real \<Rightarrow> bool" where
  "improves ws b sc = (case b of None \<Rightarrow> True | Some x \<Rightarrow> sc < x - tc_ws.tolerance ws)"

text \<open>
  Modelled from the spec: one epoch and its validation. IMPROVED: ``clone the live model
  into the best slot, record the epoch''; the score becomes the best score and the stall
  counter, which counts consecutive epochs, starts again. STALLED: ``increment a stall
  counter''.
\<close>

definition tc_epoch ::
  "(nat \<Rightarrow> 'm \<Rightarrow> 'm) \<Rightarrow> ('m \<Rightarrow> real) \<Rightarrow> tc_ws \<Rightarrow> 'm tc_loop_state \<Rightarrow> 'm tc_loop_state" where
  "tc_epoch step rmse ws s =
     (let e = epoch s + 1;
          m = step e (live s)
      in if improves ws (best_score s) (rmse m)
         then s\<lparr> live := m, epoch := e, best := Some m, best_score := Some (rmse m),
                 best_epoch := e, stall := 0 \<rparr>
         else s\<lparr> live := m, epoch := e, stall := stall s + 1 \<rparr>)"

text \<open>
  Modelled from the spec: the stop conditions after an epoch, in the spec's order. CONVERGED: ``the stall counter
  reaches 20 consecutive non-improving epochs''. TIMED\_OUT: ``wall-clock elapsed exceeds
  \<open>max_seconds\<close>'', checked only when the limit is enabled; the option's help text reads
  ``\<open><= 0\<close> to disable''. MAX\_ITERS\_REACHED: ``\<open>max_its\<close> is nonzero and the epoch count
  reaches it''.
\<close>

definition tc_stopped :: "(nat \<Rightarrow> real) \<Rightarrow> tc_ws \<Rightarrow> 'm tc_loop_state \<Rightarrow> tc_stop option" where
  "tc_stopped clock ws s =
     (if stall s = 20 then Some CONVERGED
      else if 0 < tc_ws.max_seconds ws \<and> tc_ws.max_seconds ws < clock (epoch s) then Some TIMED_OUT
      else if tc_ws.max_its ws \<noteq> 0 \<and> epoch s = unat (tc_ws.max_its ws) then Some MAX_ITERS_REACHED
      else None)"

text \<open>
  Modelled from the spec: the loop, epochs until a stop condition fires. It need not
  return (no bound may ever fire), so it is a partial function; \<open>None\<close> is a run that never
  stops.
\<close>

partial_function (option) tc_loop ::
  "(nat \<Rightarrow> 'm \<Rightarrow> 'm) \<Rightarrow> ('m \<Rightarrow> real) \<Rightarrow> (nat \<Rightarrow> real) \<Rightarrow> tc_ws \<Rightarrow> 'm tc_loop_state \<Rightarrow>
   ('m tc_loop_state \<times> tc_stop) option" where
  "tc_loop step rmse clock ws s =
     (case tc_stopped clock ws (tc_epoch step rmse ws s) of
        Some why \<Rightarrow> Some (tc_epoch step rmse ws s, why)
      | None \<Rightarrow> tc_loop step rmse clock ws (tc_epoch step rmse ws s))"

text \<open>
  Modelled from the spec: the state after \<open>n\<close> epochs of a run, whether or not the loop has
  stopped before.
\<close>

fun tc_after :: "(nat \<Rightarrow> 'm \<Rightarrow> 'm) \<Rightarrow> ('m \<Rightarrow> real) \<Rightarrow> tc_ws \<Rightarrow> 'm tc_loop_state \<Rightarrow> nat \<Rightarrow> 'm tc_loop_state" where
  "tc_after step rmse ws s 0 = s"
| "tc_after step rmse ws s (Suc n) = tc_epoch step rmse ws (tc_after step rmse ws s n)"

text \<open>
  Modelled from the spec: the order of best scores, in which \<open>None\<close>, the worst possible
  score, is above every score.
\<close>

definition score_le :: "real option \<Rightarrow> real option \<Rightarrow> bool" where
  "score_le a b =
     (case b of
        None \<Rightarrow> True
      | Some y \<Rightarrow> (case a of None \<Rightarrow> False | Some x \<Rightarrow> x \<le> y))"

section \<open>The evaluator\<close>

text \<open>
  Modelled from the spec: \<^verbatim>\<open>tc_rmse\<close> and \<^verbatim>\<open>tc_mae\<close> are in \<^verbatim>\<open>completion.c\<close>, which is missing.
  By the spec's section 4.4 the evaluator accumulates, over the entries of a tensor, the
  squared error (RMSE) or the absolute error (MAE) of the predicted value, and returns
  \<open>sqrt (sum_sq_err / nnz)\<close> and \<open>sum_abs_err / nnz\<close>. A tensor is the list of its entries and
  \<open>err e\<close> is the error of the prediction for the entry \<open>e\<close>; sums are sums of reals.
\<close>

definition sum_sq_err :: "('e \<Rightarrow> real) \<Rightarrow> 'e list \<Rightarrow> real" where
  "sum_sq_err err es = sum_list (map (\<lambda>e. (err e)\<^sup>2) es)"

definition sum_abs_err :: "('e \<Rightarrow> real) \<Rightarrow> 'e list \<Rightarrow> real" where
  "sum_abs_err err es = sum_list (map (\<lambda>e. \<bar>err e\<bar>) es)"

definition score_rmse :: "('e \<Rightarrow> real) \<Rightarrow> 'e list \<Rightarrow> real" where
  "score_rmse err es = sqrt (sum_sq_err err es / real (length es))"

definition score_mae :: "('e \<Rightarrow> real) \<Rightarrow> 'e list \<Rightarrow> real" where
  "score_mae err es = sum_abs_err err es / real (length es)"

text \<open>
  Modelled from the spec: in the distributed case each worker computes a local sum over
  its part of the tensor, and both the error accumulator and the nnz count are summed over
  the workers before finalizing. \<open>parts\<close> holds the entries of each worker.
\<close>

definition score_rmse_distributed :: "('e \<Rightarrow> real) \<Rightarrow> 'e list list \<Rightarrow> real" where
  "score_rmse_distributed err parts =
     sqrt (sum_list (map (sum_sq_err err) parts) / real (sum_list (map length parts)))"

definition score_mae_distributed :: "('e \<Rightarrow> real) \<Rightarrow> 'e list list \<Rightarrow> real" where
  "score_mae_distributed err parts =
     sum_list (map (sum_abs_err err) parts) / real (sum_list (map length parts))"

section \<open>Proofs: tucker.c\<close>

lemma max_tensize_ncols_prod:
  "max_tensize_ncols nm nfs m m2 ncols =
     ncols * prod_list (map (\<lambda>k. nfs ! k) (filter (\<lambda>k. k \<noteq> m) [m2..<nm]))"
proof (induction nm nfs m m2 ncols rule: max_tensize_ncols.induct)
  case (1 nm nfs m m2 ncols)
  show ?case
  proof (cases "m2 < nm")
    case True
    then have upt: "[m2..<nm] = m2 # [m2 + 1..<nm]" by (simp add: upt_conv_Cons)
    show ?thesis using True 1
      by (subst max_tensize_ncols.simps) (simp add: upt mult.assoc)
  next
    case False
    then show ?thesis by (subst max_tensize_ncols.simps) (simp)
  qed
qed

lemma SS_MAX_max: "SS_MAX x y = max x y"
  by (auto simp: SS_MAX_def max_def)

lemma max_tensize_modes_fold:
  "max_tensize_modes nm nfs tds m maxdim =
     fold (\<lambda>k acc. max acc (mode_tensize_w nm nfs tds k)) [m..<nm] maxdim"
proof (induction nm nfs tds m maxdim rule: max_tensize_modes.induct)
  case (1 nm nfs tds m maxdim)
  show ?case
  proof (cases "m < nm")
    case True
    then have upt: "[m..<nm] = m # [m + 1..<nm]" by (simp add: upt_conv_Cons)
    have "max_tensize_modes nm nfs tds m maxdim =
          max_tensize_modes nm nfs tds (m + 1)
            (SS_MAX maxdim (tds ! m * max_tensize_ncols nm nfs m 0 1))"
      using True by (subst max_tensize_modes.simps) (simp only: if_True Let_def)
    also have "\<dots> = fold (\<lambda>k acc. max acc (mode_tensize_w nm nfs tds k))
          [m + 1..<nm] (SS_MAX maxdim (tds ! m * max_tensize_ncols nm nfs m 0 1))"
      by (rule 1 [OF True refl refl])
    finally have unfolded: "max_tensize_modes nm nfs tds m maxdim =
          fold (\<lambda>k acc. max acc (mode_tensize_w nm nfs tds k))
          [m + 1..<nm] (SS_MAX maxdim (tds ! m * max_tensize_ncols nm nfs m 0 1))" .
    have step: "SS_MAX maxdim (tds ! m * max_tensize_ncols nm nfs m 0 1) =
        max maxdim (mode_tensize_w nm nfs tds m)"
      unfolding SS_MAX_max max_tensize_ncols_prod mode_tensize_w_def by simp
    show ?thesis unfolding unfolded step upt by simp
  next
    case False
    then show ?thesis by (subst max_tensize_modes.simps) simp
  qed
qed

lemma fold_max_Max:
  fixes a :: "'b::linorder"
  shows "fold (\<lambda>k acc. max acc (f k)) ks a = Max (insert a (f ` set ks))"
proof (induction ks arbitrary: a)
  case Nil
  show ?case by simp
next
  case (Cons k ks)
  have "Max (insert (max a (f k)) (f ` set ks)) = Max (insert a (insert (f k) (f ` set ks)))"
  proof (cases "set ks = {}")
    case True
    then show ?thesis by (simp add: max.commute)
  next
    case False
    then show ?thesis by (simp add: max.assoc)
  qed
  then show ?case using Cons by simp
qed

lemma prod_list_word_of_nat:
  "prod_list (map f ks) = (word_of_nat (prod_list (map (\<lambda>k. unat (f k)) ks)) :: 'a::len word)"
  by (induction ks) simp_all

lemma mode_tensize_w_of_nat:
  assumes "m < nm" "nm \<le> length nfs" "nm \<le> length tds"
  shows "mode_tensize_w nm nfs tds m =
     word_of_nat (mode_tensize nm (map unat nfs) (map unat tds) m)"
proof -
  have eq: "map (\<lambda>k. map unat nfs ! k) (filter (\<lambda>m2. m2 \<noteq> m) [0..<nm]) =
        map (\<lambda>k. unat (nfs ! k)) (filter (\<lambda>m2. m2 \<noteq> m) [0..<nm])"
    using assms by (intro map_cong) auto
  have "mode_tensize_w nm nfs tds m =
        word_of_nat (unat (tds ! m)) * word_of_nat (prod_list (map (\<lambda>k. unat (nfs ! k))
           (filter (\<lambda>m2. m2 \<noteq> m) [0..<nm])))"
    unfolding mode_tensize_w_def by (simp add: prod_list_word_of_nat [of "\<lambda>k. nfs ! k"])
  also have "\<dots> = word_of_nat (mode_tensize nm (map unat nfs) (map unat tds) m)"
    unfolding mode_tensize_def eq using assms by simp
  finally show ?thesis .
qed


lemma max_tensize_word:
  "max_tensize nm nfs tds =
     Max (insert 0 (mode_tensize_w (unat nm) nfs tds ` {..<unat nm}))"
  unfolding max_tensize_def max_tensize_modes_fold fold_max_Max
  by (simp add: atLeast0LessThan)

lemma unat_Max:
  fixes S :: "'a::len word set"
  assumes "finite S" "S \<noteq> {}"
  shows "unat (Max S) = Max (unat ` S)"
  by (rule mono_Max_commute [OF _ assms]) (simp add: mono_def word_le_nat_alt)

text \<open>
  Claim C10, as amended. For every \<open>nmodes \<ge> 1\<close> and arrays \<open>nfactors\<close> and \<open>tdims\<close> of that
  length, if for every mode \<open>m\<close> the product of \<open>tdims[m]\<close> with all \<open>nfactors[m2]\<close>,
  \<open>m2 \<noteq> m\<close>, fits \<^verbatim>\<open>idx_t\<close>, then \<^verbatim>\<open>__max_tensize\<close> returns the maximum of these products
  over the modes. (In the statement, \<open>nm\<close>, \<open>nfs\<close> and \<open>tds\<close> are \<^verbatim>\<open>nmodes\<close>, \<^verbatim>\<open>nfactors\<close> and
  \<^verbatim>\<open>tdims\<close>.)
\<close>

theorem max_tensize_no_overflow:
  fixes nm :: "'a::len word"
  assumes nz: "1 \<le> unat nm"
    and len: "length nfs = unat nm" "length tds = unat nm"
    and fits: "\<forall>m < unat nm.
        mode_tensize (unat nm) (map unat nfs) (map unat tds) m < 2 ^ LENGTH('a)"
  shows "unat (max_tensize nm nfs tds) =
         max_tensize_spec (unat nm) (map unat nfs) (map unat tds)"
proof -
  let ?n = "unat nm"
  let ?w = "mode_tensize_w ?n nfs tds"
  let ?s = "mode_tensize ?n (map unat nfs) (map unat tds)"
  have each: "unat (?w m) = ?s m" if "m < ?n" for m
    using that len fits by (simp add: mode_tensize_w_of_nat unat_of_nat)
  have "0 \<in> {..<?n}" using nz by simp
  then have ne: "{..<?n} \<noteq> {}" by blast
  have "unat (max_tensize nm nfs tds) = Max (unat ` insert 0 (?w ` {..<?n}))"
    unfolding max_tensize_word by (rule unat_Max) simp_all
  also have "unat ` insert 0 (?w ` {..<?n}) = insert 0 (?s ` {..<?n})"
    using each by (auto simp: image_iff)
  also have "Max (insert 0 (?s ` {..<?n})) = Max (?s ` {..<?n})"
    using ne by (simp add: Max_insert)
  finally show ?thesis
    by (simp add: max_tensize_spec_def atLeast0LessThan)
qed

text \<open>
  Witness for C10: three modes with \<open>nfactors = [2, 3, 4]\<close> and \<open>tdims = [10, 20, 30]\<close> on
  64-bit indices; the per-mode sizes are 120, 160 and 180.
\<close>

theorem max_tensize_no_overflow_witness:
  "unat (max_tensize (3 :: 64 word) [2, 3, 4] [10, 20, 30]) = 180 \<and>
   max_tensize_spec 3 [2, 3, 4] [10, 20, 30] = 180"
proof -
  have upt3: "[0..<3] = [0, 1, 2]" by (simp add: upt_rec)
  have spec: "max_tensize_spec 3 [2, 3, 4] [10, 20, 30] = 180"
    by (simp add: max_tensize_spec_def mode_tensize_def upt3)
  have "\<forall>m \<in> set [0..<3].
      mode_tensize 3 (map unat [2, 3, 4 :: 64 word]) (map unat [10, 20, 30 :: 64 word]) m
        < 2 ^ LENGTH(64)"
    unfolding upt3 by (simp add: mode_tensize_def upt3)
  then have fits: "\<forall>m < unat (3 :: 64 word).
      mode_tensize (unat (3 :: 64 word)) (map unat [2, 3, 4 :: 64 word])
        (map unat [10, 20, 30 :: 64 word]) m < 2 ^ LENGTH(64)"
    by simp
  show ?thesis
    using max_tensize_no_overflow [of "3 :: 64 word" "[2, 3, 4]" "[10, 20, 30]", OF _ _ _ fits] spec
    by simp
qed

text \<open>
  Counterexample to C10 as stated, on 64-bit indices: with \<open>nfactors = [2^32, 2^32]\<close> and
  \<open>tdims = [2^32, 1]\<close> the size of mode 0 is \<open>2^64\<close>, which wraps to 0, so the function
  returns the size of mode 1, \<open>2^32\<close>, and not the maximum \<open>2^64\<close>.
\<close>

theorem max_tensize_overflow_counterexample:
  "unat (max_tensize (2 :: 64 word) [2 ^ 32, 2 ^ 32] [2 ^ 32, 1]) = 2 ^ 32 \<and>
   max_tensize_spec 2 [2 ^ 32, 2 ^ 32] [2 ^ 32, 1] = 2 ^ 64"
proof -
  have upt2: "[0..<2] = [0, 1]" by (simp add: upt_rec)
  have "max_tensize_spec 2 [2 ^ 32, 2 ^ 32] [2 ^ 32, 1] = 2 ^ 64"
    by (simp add: max_tensize_spec_def mode_tensize_def upt2)
  moreover have "max_tensize (2 :: 64 word) [2 ^ 32, 2 ^ 32] [2 ^ 32, 1] = 2 ^ 32"
  proof -
    have two: "{..<unat (2 :: 64 word)} = {0, 1}" by auto
    show ?thesis unfolding max_tensize_word two by (simp add: mode_tensize_w_def upt2)
  qed
  ultimately show ?thesis by simp
qed

section \<open>Proofs: the distributed load of the validation tensor\<close>






















text \<open>
  The load run on the example: of the entries with the 1-based mode-0 indices 1, 3 and 4,
  the worker with the range \<open>[2, 4)\<close> keeps the second and the third, rebased to 0 and 1.
\<close>

lemma load_validate_example:
  "load_validate example_libc 8 example_layer example_file (replicate 8 0) =
     Inr (Loaded \<lparr> nmodes = 3, nnz = 2, dims = [2, 2, 2],
                  ind = [[0, 1], [1, 0], [0, 1]], vals = [2, 1 / 2] \<rparr>)"
  by code_simp



section \<open>Proofs: the choice of the algorithm\<close>

lemma key_char_values:
  "key_char CHR ''i'' = 105" "key_char CHR ''t'' = 116" "key_char CHR ''v'' = 118"
  "key_char CHR ''a'' = 97" "key_char CHR ''r'' = 114" "key_char CHR ''s'' = 115"
  by (simp_all add: key_char_def)

lemmas key_defs = key_char_values TC_REG_def TC_NOWRITE_def TC_SEED_def TC_TIME_def TC_TOL_def
  TC_NORAND_PER_ITERATION_def TC_HOGWILD_def TC_FOLD_def ARGP_KEY_ARG_def ARGP_KEY_END_def

lemma parse_tc_alg_table:
  "parse_tc_alg arg =
     (if arg = ''gd'' then SPLATT_TC_GD
      else if arg = ''lbfgs'' then SPLATT_TC_LBFGS
      else if arg = ''cg'' \<or> arg = ''nlcg'' then SPLATT_TC_NLCG
      else if arg = ''sgd'' then SPLATT_TC_SGD
      else if arg = ''als'' then SPLATT_TC_ALS
      else if arg = ''ccd'' then SPLATT_TC_CCD
      else SPLATT_TC_NALGS)"
  by (simp add: parse_tc_alg_def maps_tc_def)

lemma parse_tc_opt_alg:
  "parse_tc_opt L (key_char CHR ''a'') (Some arg) args =
     (case skip_equals (Some arg) of
        None \<Rightarrow> Inl Null_pointer
      | Some s \<Rightarrow>
          if parse_tc_alg s = SPLATT_TC_NALGS
          then Inl (Argp_usage [Unknown_algorithm_name s])
          else Inr (args\<lparr>which_alg := parse_tc_alg s\<rparr>))"
  by (simp add: parse_tc_opt_def key_defs Let_def)

text \<open>
  Claim C3. \<^verbatim>\<open>parse_tc_alg\<close> returns the algorithm of the name it is given when that is one
  of \<^verbatim>\<open>gd\<close>, \<^verbatim>\<open>lbfgs\<close>, \<^verbatim>\<open>cg\<close>, \<^verbatim>\<open>nlcg\<close>, \<^verbatim>\<open>sgd\<close>, \<^verbatim>\<open>als\<close>, \<^verbatim>\<open>ccd\<close> (\<^verbatim>\<open>cg\<close> and \<^verbatim>\<open>nlcg\<close>
  both name \<^verbatim>\<open>SPLATT_TC_NLCG\<close>), and the sentinel \<^verbatim>\<open>SPLATT_TC_NALGS\<close> for every other string
  and only then. The option \<^verbatim>\<open>-a\<close>, called on an argument that reads as \<open>arg\<close> once a leading
  \<^verbatim>\<open>=\<close> is skipped, ends in the usage message and the exit of the process when
  \<^verbatim>\<open>parse_tc_alg\<close> returns the sentinel, and stores the algorithm otherwise.
\<close>

theorem parse_tc_alg_closed_set:
  "parse_tc_alg arg =
     (if arg = ''gd'' then SPLATT_TC_GD
      else if arg = ''lbfgs'' then SPLATT_TC_LBFGS
      else if arg = ''cg'' \<or> arg = ''nlcg'' then SPLATT_TC_NLCG
      else if arg = ''sgd'' then SPLATT_TC_SGD
      else if arg = ''als'' then SPLATT_TC_ALS
      else if arg = ''ccd'' then SPLATT_TC_CCD
      else SPLATT_TC_NALGS)
   \<and> (parse_tc_alg arg = SPLATT_TC_NALGS \<longleftrightarrow>
        arg \<notin> {''gd'', ''lbfgs'', ''cg'', ''nlcg'', ''sgd'', ''als'', ''ccd''})
   \<and> (\<forall>L args opt. skip_equals (Some opt) = Some arg \<longrightarrow>
        parse_tc_opt L (key_char CHR ''a'') (Some opt) args =
          (if parse_tc_alg arg = SPLATT_TC_NALGS
           then Inl (Argp_usage [Unknown_algorithm_name arg])
           else Inr (args\<lparr>which_alg := parse_tc_alg arg\<rparr>)))"
proof (intro conjI allI impI)
  show "parse_tc_alg arg =
     (if arg = ''gd'' then SPLATT_TC_GD
      else if arg = ''lbfgs'' then SPLATT_TC_LBFGS
      else if arg = ''cg'' \<or> arg = ''nlcg'' then SPLATT_TC_NLCG
      else if arg = ''sgd'' then SPLATT_TC_SGD
      else if arg = ''als'' then SPLATT_TC_ALS
      else if arg = ''ccd'' then SPLATT_TC_CCD
      else SPLATT_TC_NALGS)"
    by (rule parse_tc_alg_table)
  show "parse_tc_alg arg = SPLATT_TC_NALGS \<longleftrightarrow>
        arg \<notin> {''gd'', ''lbfgs'', ''cg'', ''nlcg'', ''sgd'', ''als'', ''ccd''}"
    by (simp add: parse_tc_alg_table)
next
  fix L args opt
  assume "skip_equals (Some opt) = Some arg"
  then show "parse_tc_opt L (key_char CHR ''a'') (Some opt) args =
          (if parse_tc_alg arg = SPLATT_TC_NALGS
           then Inl (Argp_usage [Unknown_algorithm_name arg])
           else Inr (args\<lparr>which_alg := parse_tc_alg arg\<rparr>))"
    by (simp add: parse_tc_opt_alg)
qed

text \<open>
  Witness for C3: \<^verbatim>\<open>nlcg\<close> is found, \<^verbatim>\<open>adam\<close> is not, and \<^verbatim>\<open>-a=adam\<close> ends in the usage message.
\<close>

theorem parse_tc_alg_closed_set_witness:
  "parse_tc_alg ''nlcg'' = SPLATT_TC_NLCG \<and>
   parse_tc_alg ''adam'' = SPLATT_TC_NALGS \<and>
   (\<forall>L args. parse_tc_opt L (key_char CHR ''a'') (Some ''=adam'') args =
      Inl (Argp_usage [Unknown_algorithm_name ''adam''])) \<and>
   (\<forall>L args. parse_tc_opt L (key_char CHR ''a'') (Some ''nlcg'') args =
      Inr (args\<lparr>which_alg := SPLATT_TC_NLCG\<rparr>))"
proof -
  have e1: "skip_equals (Some ''=adam'') = Some ''adam''" by simp
  have e2: "skip_equals (Some ''nlcg'') = Some ''nlcg''" by simp
  have a: "parse_tc_alg ''nlcg'' = SPLATT_TC_NLCG"
    using parse_tc_alg_closed_set [of "''nlcg''"] by simp
  have b: "parse_tc_alg ''adam'' = SPLATT_TC_NALGS"
    using parse_tc_alg_closed_set [of "''adam''"] by simp
  show ?thesis
    using parse_tc_alg_closed_set [of "''adam''"] parse_tc_alg_closed_set [of "''nlcg''"] e1 e2 a b
    by simp
qed

section \<open>Proofs: the write flag\<close>

lemma with_arg_Inr: "with_arg arg f = Inr args' \<longleftrightarrow> (\<exists>s. arg = Some s \<and> args' = f s)"
  by (auto simp: with_arg_def split: option.splits)

lemma parse_tc_opt_write_flag:
  assumes "parse_tc_opt L key arg args = Inr args'" "\<not> write_flag args"
  shows "\<not> write_flag args'"
  using assms unfolding parse_tc_opt_def Let_def
  by (auto simp: with_arg_Inr split: if_splits option.splits)

lemma parse_calls_write_flag:
  "parse_calls L calls args = Inr args' \<Longrightarrow> \<not> write_flag args \<Longrightarrow> \<not> write_flag args'"
proof (induction calls arbitrary: args)
  case Nil
  then show ?case by simp
next
  case (Cons c calls)
  obtain key arg where c: "c = (key, arg)" by (cases c)
  from Cons.prems obtain a1 where a1: "parse_tc_opt L key arg args = Inr a1"
      and rest: "parse_calls L calls a1 = Inr args'"
    by (auto simp: c split: sum.splits)
  from parse_tc_opt_write_flag [OF a1 Cons.prems(2)] have "\<not> write_flag a1" .
  from Cons.IH [OF rest this] show ?case .
qed

lemma argp_parse_write_flag:
  "argp_parse L calls (default_tc_opts t n a) = Inr args \<Longrightarrow> \<not> write_flag args"
  unfolding argp_parse_def
  by (erule parse_calls_write_flag) (simp add: default_tc_opts_def)


lemma and_then_events:
  "e \<in> set (fst (and_then s f)) \<Longrightarrow>
     e \<in> set (fst s) \<or> (\<exists>x. snd s = Inr x \<and> e \<in> set (fst (f x)))"
  by (auto simp: and_then_def split: prod.splits sum.splits)

lemma file_name_events: "fst (file_name args n) = []"
  by (simp add: file_name_def split: option.splits)

lemma tc_cmd_load_events:
  "e \<in> set (fst (tc_cmd_load B L E args)) \<Longrightarrow> \<exists>s. e = Stderr s"
  unfolding tc_cmd_load_def
  by (auto dest!: and_then_events simp: file_name_events
           split: if_splits prod.splits option.splits sum.splits loaded.splits)

lemma tc_cmd_train_events:
  "e \<in> set (fst (tc_cmd_train B E args rinfo gnnz train v model ws)) \<Longrightarrow>
     (\<exists>s. e = Stderr s) \<or> (\<exists>a. e = Print_alg a) \<or> (\<exists>a. e = Train a)"
  unfolding tc_cmd_train_def
  by (auto simp: on_rank0_def Let_def split: if_splits)

lemma tc_cmd_report_events:
  "e \<in> set (tc_cmd_report B E rinfo v ws) \<Longrightarrow> \<exists>n r a b. e = Print_validation n r a b"
  unfolding tc_cmd_report_def
  by (auto simp: on_rank0_def split: if_splits)

lemma tc_cmd_test_events:
  "e \<in> set (fst (tc_cmd_test E args ws)) \<Longrightarrow> \<exists>n r a. e = Print_test n r a"
  unfolding tc_cmd_test_def
  by (auto split: if_splits option.splits)

lemma tc_cmd_write_off:
  "\<not> write_flag args \<Longrightarrow> tc_cmd_write args nm ws = ([], Inr ())"
  by (simp add: tc_cmd_write_def)

lemma tc_cmd_run_no_write:
  assumes "\<not> write_flag args"
  shows "Mat_write m \<notin> set (fst (tc_cmd_run B L E args))"
proof
  assume "Mat_write m \<in> set (fst (tc_cmd_run B L E args))"
  then show False
    unfolding tc_cmd_run_def tc_cmd_factor_def tc_cmd_finish_def
    by (auto dest!: and_then_events tc_cmd_load_events tc_cmd_train_events tc_cmd_report_events
               tc_cmd_test_events
             simp: on_rank0_def Let_def tc_cmd_write_off [OF assms]
             split: if_splits prod.splits option.splits sum.splits)
qed


text \<open>
  Claim C9. Whatever calls the argument parser makes for a command line, if it accepts
  the command line then \<^verbatim>\<open>args.write\<close> is false: \<^verbatim>\<open>default_tc_opts\<close> sets it to false and the
  only case of \<^verbatim>\<open>parse_tc_opt\<close> that assigns it, \<^verbatim>\<open>TC_NOWRITE\<close>, assigns false. Hence no run
  of \<^verbatim>\<open>splatt_tc_cmd\<close> writes a factor-matrix file: no event \<open>Mat_write\<close> occurs, for any
  build, C library, surroundings and command line.
\<close>

theorem write_flag_stays_false:
  "(\<forall>args. argp_parse L calls (default_tc_opts t n a) = Inr args \<longrightarrow> \<not> write_flag args)
   \<and> (\<forall>m. Mat_write m \<notin> set (fst (splatt_tc_cmd B L E calls)))"
proof (intro conjI allI impI)
  fix args
  assume "argp_parse L calls (default_tc_opts t n a) = Inr args"
  then show "\<not> write_flag args" by (rule argp_parse_write_flag)
next
  fix m
  show "Mat_write m \<notin> set (fst (splatt_tc_cmd B L E calls))"
  proof (cases "argp_parse L calls (default_tc_opts (time_now E) (omp_max_threads E) (stack_args E))")
    case (Inl e)
    then show ?thesis by (simp add: splatt_tc_cmd_def)
  next
    case (Inr args)
    then have "\<not> write_flag args" by (rule argp_parse_write_flag)
    from tc_cmd_run_no_write [OF this, of m B L E] Inr show ?thesis
      by (auto simp: splatt_tc_cmd_def split: prod.splits sum.splits)
  qed
qed

text \<open>
  Witness for C9: the command line \<^verbatim>\<open>train.tns validate.tns --nowrite\<close> is accepted, for every
  C library, and leaves \<^verbatim>\<open>write\<close> false.
\<close>

theorem write_flag_stays_false_witness:
  "\<forall>L t n a. \<exists>args.
     argp_parse L [(ARGP_KEY_ARG, Some ''train.tns''), (ARGP_KEY_ARG, Some ''validate.tns''),
                   (TC_NOWRITE, None)] (default_tc_opts t n a) = Inr args
     \<and> \<not> write_flag args
     \<and> ifnames args = [Some ''train.tns'', Some ''validate.tns'', None]"
proof (intro allI)
  fix L t n a
  let ?calls = "[(ARGP_KEY_ARG, Some ''train.tns''), (ARGP_KEY_ARG, Some ''validate.tns''),
                   (TC_NOWRITE, None)]"
  obtain args where args: "argp_parse L ?calls (default_tc_opts t n a) = Inr args"
      and names: "ifnames args = [Some ''train.tns'', Some ''validate.tns'', None]"
    by (simp add: argp_parse_def parse_tc_opt_def key_defs default_tc_opts_def)
  from write_flag_stays_false [of L ?calls t n a] args have "\<not> write_flag args"
    by blast
  with args names show "\<exists>args. argp_parse L ?calls (default_tc_opts t n a) = Inr args
     \<and> \<not> write_flag args
     \<and> ifnames args = [Some ''train.tns'', Some ''validate.tns'', None]"
    by blast
qed

section \<open>Proofs: the caller's settings\<close>

lemma set_regularization_eq:
  "m \<le> nm \<Longrightarrow> nm \<le> length regs \<Longrightarrow>
     set_regularization r nm m regs = Inr (take m regs @ replicate (nm - m) r @ drop nm regs)"
proof (induction r nm m regs rule: set_regularization.induct)
  case (1 r nm m regs)
  show ?case
  proof (cases "m < nm")
    case True
    then have inb: "m < length regs" using "1.prems" by simp
    have "set_regularization r nm (m + 1) (regs[m := r]) =
          Inr (take (m + 1) (regs[m := r]) @ replicate (nm - (m + 1)) r @ drop nm (regs[m := r]))"
      using "1.IH" [OF True inb] True "1.prems" by simp
    moreover have "take (m + 1) (regs[m := r]) = take m regs @ [r]"
      using inb by (simp add: take_Suc_conv_app_nth)
    moreover have "drop nm (regs[m := r]) = drop nm regs"
      using True by simp
    moreover have "replicate (nm - m) r = r # replicate (nm - (m + 1)) r"
      using True by (simp add: Suc_diff_Suc [symmetric])
    ultimately show ?thesis using True inb
      by (subst set_regularization.simps) simp
  next
    case False
    then show ?thesis using "1.prems" by (subst set_regularization.simps) simp
  qed
qed

lemma set_regularization_short:
  "m \<le> nm \<Longrightarrow> length regs < nm \<Longrightarrow> m \<le> length regs \<Longrightarrow>
     set_regularization r nm m regs = Inl Out_of_bounds"
proof (induction r nm m regs rule: set_regularization.induct)
  case (1 r nm m regs)
  show ?case
  proof (cases "m < length regs")
    case True
    then show ?thesis using "1.IH" "1.prems" by (subst set_regularization.simps) simp
  next
    case False
    then show ?thesis using "1.prems" by (subst set_regularization.simps) simp
  qed
qed

lemma tc_cmd_overrides_Inr:
  assumes "tc_cmd_overrides args nm ws = Inr ws'"
  shows "reg args = - 1 \<or> unat nm \<le> length (regularization ws)"
proof (rule ccontr)
  assume "\<not> ?thesis"
  then have "reg args \<noteq> - 1" "length (regularization ws) < unat nm" by simp_all
  then show False using assms set_regularization_short [of 0 "unat nm" "regularization ws" "reg args"]
    by (simp add: tc_cmd_overrides_def Let_def split: if_splits)
qed

lemma tc_cmd_overrides_eq:
  assumes "reg args = - 1 \<or> unat nm \<le> length (regularization ws)"
  shows "tc_cmd_overrides args nm ws =
     Inr (ws\<lparr> tc_ws.learn_rate :=
                (if tc_cmd_args.learn_rate args \<noteq> - 1 then tc_cmd_args.learn_rate args
                 else tc_ws.learn_rate ws),
              regularization :=
                (if reg args \<noteq> - 1
                 then replicate (unat nm) (reg args) @ drop (unat nm) (regularization ws)
                 else regularization ws),
              tc_ws.max_its :=
                (if tc_cmd_args.max_its args \<noteq> 0 then tc_cmd_args.max_its args
                 else tc_ws.max_its ws),
              tc_ws.max_seconds :=
                (if set_timeout args then tc_cmd_args.max_seconds args else tc_ws.max_seconds ws),
              tc_ws.tolerance :=
                (if set_tolerance args then tc_cmd_args.tolerance args else tc_ws.tolerance ws),
              tc_ws.rand_per_iteration := tc_cmd_args.rand_per_iteration args,
              tc_ws.hogwild := tc_cmd_args.hogwild args,
              tc_ws.folds := tc_cmd_args.folds args \<rparr>)"
proof (cases "reg args = - 1")
  case True
  then show ?thesis by (simp add: tc_cmd_overrides_def Let_def)
next
  case False
  then have "unat nm \<le> length (regularization ws)" using assms by simp
  from set_regularization_eq [OF _ this, of 0 "reg args"] False show ?thesis
    by (simp add: tc_cmd_overrides_def Let_def)
qed








section \<open>Proofs: bad input\<close>


lemma and_then_stops:
  assumes "\<And>x. \<exists>evs out. f x = (evs, Inl out)"
  shows "\<exists>evs out. and_then s f = (evs, Inl out)"
proof (cases s)
  case (Pair e r)
  show ?thesis
  proof (cases r)
    case (Inl out)
    then show ?thesis using Pair by (simp add: and_then_def)
  next
    case (Inr x)
    from assms [of x] obtain e2 out where "f x = (e2, Inl out)" by blast
    then show ?thesis using Pair Inr by (simp add: and_then_def)
  qed
qed


lemma tc_cmd_test_unreadable:
  "ifnames args ! 2 = Some f2 \<Longrightarrow> tt_read E f2 = None \<Longrightarrow>
     \<exists>evs out. tc_cmd_test E args ws = (evs, Inl out)"
  by (auto simp: tc_cmd_test_def)


lemma tc_cmd_finish_unreadable:
  assumes "ifnames args ! 2 = Some f2" "tt_read E f2 = None"
  shows "\<exists>evs out. tc_cmd_finish B E args rinfo v nm ws = (evs, Inl out)"
  unfolding tc_cmd_finish_def
proof (rule and_then_stops)
  fix u :: unit
  from tc_cmd_test_unreadable [OF assms, of ws]
  obtain e out where "tc_cmd_test E args ws = (e, Inl out)" by blast
  then show "\<exists>evs out. and_then (tc_cmd_test E args ws)
      (\<lambda>u. and_then (tc_cmd_write args nm ws) (\<lambda>u. ([], Inr EXIT_SUCCESS))) = (evs, Inl out)"
    by (simp add: and_then_def)
qed



lemma tc_cmd_factor_unreadable:
  assumes "ifnames args ! 2 = Some f2" "tt_read E f2 = None"
  shows "\<exists>evs out. tc_cmd_factor B E args rinfo gnnz train v = (evs, Inl out)"
  unfolding tc_cmd_factor_def Let_def
proof (rule and_then_stops)
  fix u :: unit
  let ?model = "tc_model_alloc E (seed args) train (nfactors args) (which_alg args)"
  let ?ws0 = "tc_ws_alloc E train ?model (tc_cmd_args.nthreads args)"
  show "\<exists>evs out. (case tc_cmd_overrides args (nmodes train) ?ws0 of
             Inl e \<Rightarrow> ([], Inl (Halt e))
           | Inr ws \<Rightarrow>
               and_then (on_rank0 B rinfo [Print_config], Inr ()) (\<lambda>u.
               and_then (tc_cmd_train B E args rinfo gnnz train v ?model ws) (\<lambda>(model', ws').
                 tc_cmd_finish B E args rinfo v (nmodes train) ws'))) = (evs, Inl out)"
  proof (cases "tc_cmd_overrides args (nmodes train) ?ws0")
    case (Inl e)
    then show ?thesis by simp
  next
    case (Inr ws)
    have "\<exists>evs out. and_then (on_rank0 B rinfo [Print_config], Inr ()) (\<lambda>u.
               and_then (tc_cmd_train B E args rinfo gnnz train v ?model ws) (\<lambda>(model', ws').
                 tc_cmd_finish B E args rinfo v (nmodes train) ws')) = (evs, Inl out)"
      by (intro and_then_stops) (auto intro: tc_cmd_finish_unreadable [OF assms])
    then show ?thesis using Inr by simp
  qed
qed








lemma tc_cmd_load_mpi_train:
  assumes "SPLATT_USE_MPI B" "ifnames args = [Some f0, Some f1, third]"
    "tc_cmd_load B L E args = (evs, Inr (train_opt, validate_opt, rinfo, gnnz))"
  shows "train_opt = fst (mpi_tt_read E f0 (init_rinfo B E))"
  using assms
  by (auto simp: tc_cmd_load_def file_name_def and_then_def
           split: option.splits prod.splits sum.splits loaded.splits)



lemma tc_cmd_run_cases:
  "tc_cmd_run B L E args =
     (case tc_cmd_load B L E args of
        (e, Inl out) \<Rightarrow>
          (on_rank0 B (init_rinfo B E) [Print_header] @ [Srand (seed args)] @ e, Inl out)
      | (e, Inr (Some train, Some v, rinfo, gnnz)) \<Rightarrow>
          (case tc_cmd_factor B E args rinfo gnnz train v of
             (e', r) \<Rightarrow>
               (on_rank0 B (init_rinfo B E) [Print_header] @ [Srand (seed args)] @ e @ e', r))
      | (e, Inr (train_opt, validate_opt, rinfo, gnnz)) \<Rightarrow>
          (on_rank0 B (init_rinfo B E) [Print_header] @ [Srand (seed args)] @ e,
           Inl (Return SPLATT_ERROR_BADINPUT)))"
  by (simp add: tc_cmd_run_def and_then_def split: prod.splits sum.splits option.splits)

lemma header_no_train: "Train a \<notin> set (on_rank0 B r [Print_header] @ [Srand s])"
  by (simp add: on_rank0_def)


lemma tc_cmd_run_unreadable:
  assumes "ifnames args ! 2 = Some f2" "tt_read E f2 = None"
  shows "\<exists>evs out. tc_cmd_run B L E args = (evs, Inl out)"
proof (cases "tc_cmd_load B L E args")
  case (Pair e r)
  show ?thesis
  proof (cases r)
    case (Inl out)
    then show ?thesis using Pair by (simp add: tc_cmd_run_cases)
  next
    case (Inr x)
    obtain train_opt validate_opt rinfo gnnz where x: "x = (train_opt, validate_opt, rinfo, gnnz)"
      by (cases x) auto
    show ?thesis
    proof (cases "\<exists>train v. train_opt = Some train \<and> validate_opt = Some v")
      case True
      then obtain train v where tv: "train_opt = Some train" "validate_opt = Some v" by blast
      from tc_cmd_factor_unreadable [OF assms, of B rinfo gnnz train v]
      obtain e' out where "tc_cmd_factor B E args rinfo gnnz train v = (e', Inl out)" by blast
      then show ?thesis using Pair Inr x tv by (simp add: tc_cmd_run_cases)
    next
      case False
      then show ?thesis using Pair Inr x
        by (cases train_opt; cases validate_opt) (simp_all add: tc_cmd_run_cases)
    qed
  qed
qed

lemma tc_cmd_run_mpi_train:
  assumes "SPLATT_USE_MPI B" "ifnames args = [Some f0, Some f1, third]"
    "fst (mpi_tt_read E f0 (init_rinfo B E)) = None"
  shows "\<exists>evs out. tc_cmd_run B L E args = (evs, Inl out) \<and> (\<forall>a. Train a \<notin> set evs)"
proof (cases "tc_cmd_load B L E args")
  case (Pair e r)
  have e: "Train a \<notin> set e" for a
    using tc_cmd_load_events [of "Train a" B L E args] Pair by auto
  show ?thesis
  proof (cases r)
    case (Inl out)
    then show ?thesis using Pair e by (simp add: tc_cmd_run_cases on_rank0_def)
  next
    case (Inr x)
    obtain train_opt validate_opt rinfo gnnz where x: "x = (train_opt, validate_opt, rinfo, gnnz)"
      by (cases x) auto
    have "train_opt = None"
      using tc_cmd_load_mpi_train [OF assms(1,2), of L evs] Pair Inr x assms(3)
        tc_cmd_load_mpi_train [OF assms(1,2) Pair [unfolded Inr x]]
      by simp
    then show ?thesis using Pair Inr x e
      by (simp add: tc_cmd_run_cases on_rank0_def)
  qed
qed






















section \<open>Proofs: the training loop\<close>

lemma epoch_tc_epoch: "epoch (tc_epoch step rmse ws s) = epoch s + 1"
  by (simp add: tc_epoch_def Let_def)

lemma tc_loop_within:
  assumes "tc_ws.max_its ws \<noteq> 0" "epoch s < unat (tc_ws.max_its ws)"
  shows "\<exists>s' why. tc_loop step rmse clock ws s = Some (s', why)
           \<and> epoch s < epoch s' \<and> epoch s' \<le> unat (tc_ws.max_its ws)
           \<and> (\<exists>n. s' = tc_after step rmse ws s n)"
  using assms(2)
proof (induction "unat (tc_ws.max_its ws) - epoch s" arbitrary: s)
  case 0
  then show ?case by simp
next
  case (Suc d)
  let ?s1 = "tc_epoch step rmse ws s"
  have e1: "epoch ?s1 = epoch s + 1" by (rule epoch_tc_epoch)
  have s1: "\<exists>n. ?s1 = tc_after step rmse ws s n"
    by (rule exI [of _ "Suc 0"]) simp
  show ?case
  proof (cases "tc_stopped clock ws ?s1")
    case (Some why)
    then have "tc_loop step rmse clock ws s = Some (?s1, why)"
      by (subst tc_loop.simps) simp
    moreover have "epoch ?s1 \<le> unat (tc_ws.max_its ws)" using e1 Suc.prems by simp
    ultimately show ?thesis using e1 s1 by (intro exI [of _ ?s1] exI [of _ why] conjI) simp_all
  next
    case None
    then have ne: "epoch ?s1 \<noteq> unat (tc_ws.max_its ws)"
      using assms(1) by (auto simp: tc_stopped_def split: if_splits)
    then have lt: "epoch ?s1 < unat (tc_ws.max_its ws)" using e1 Suc.prems by simp
    have d: "d = unat (tc_ws.max_its ws) - epoch ?s1" using Suc.hyps(2) e1 by simp
    from Suc.hyps(1) [OF d lt]
    obtain s' why n where s': "tc_loop step rmse clock ws ?s1 = Some (s', why)"
        "epoch ?s1 < epoch s'" "epoch s' \<le> unat (tc_ws.max_its ws)"
        "s' = tc_after step rmse ws ?s1 n"
      by blast
    have "tc_after step rmse ws ?s1 n = tc_after step rmse ws s (Suc n)"
      by (induction n) simp_all
    with s'(4) have "\<exists>n. s' = tc_after step rmse ws s n" by blast
    moreover have "tc_loop step rmse clock ws s = Some (s', why)"
      using None s'(1) by (subst tc_loop.simps) simp
    moreover have "epoch s < epoch s'" using s'(2) e1 by simp
    ultimately show ?thesis using s'(3) by (intro exI [of _ s'] exI [of _ why] conjI) simp_all
  qed
qed

text \<open>
  Claim C7. When the caller supplied \<open>max_its > 0\<close>, the workspace's \<^verbatim>\<open>max_its\<close> is the
  caller's, and the training loop started on any model returns, after at least one and at
  most \<open>max_its\<close> epochs, whatever the epoch update, the validation scores, the clock, the
  time limit and the tolerance are.
\<close>

theorem training_halts_within_max_its:
  assumes given: "tc_cmd_args.max_its args \<noteq> 0"
    and copied: "tc_cmd_overrides args nm ws0 = Inr ws"
  shows "tc_ws.max_its ws = tc_cmd_args.max_its args
       \<and> (\<exists>s' why. tc_loop step rmse clock ws (tc_loop_init m) = Some (s', why)
             \<and> 0 < epoch s' \<and> epoch s' \<le> unat (tc_cmd_args.max_its args))"
proof -
  have "reg args = - 1 \<or> unat nm \<le> length (regularization ws0)"
    using copied by (rule tc_cmd_overrides_Inr)
  from tc_cmd_overrides_eq [OF this] copied given
  have its: "tc_ws.max_its ws = tc_cmd_args.max_its args" by auto
  then have nz: "tc_ws.max_its ws \<noteq> 0" using given by simp
  then have "0 < unat (tc_ws.max_its ws)" by (simp add: unat_gt_0)
  then have "epoch (tc_loop_init m) < unat (tc_ws.max_its ws)"
    by (simp add: tc_loop_init_def)
  from tc_loop_within [OF nz this, of step rmse clock] its show ?thesis
    by auto
qed

text \<open>
  Witness for C7: the defaults with \<^verbatim>\<open>max_its\<close> set to 3, as \<^verbatim>\<open>-i 3\<close> sets it when
  \<^verbatim>\<open>strtoull\<close> reads 3, copied into the example workspace: the loop returns within 3
  epochs, for every epoch update, score and clock.
\<close>

theorem training_halts_within_max_its_witness:
  "\<forall>step rmse clock (m :: nat).
     \<exists>ws s' why.
       tc_cmd_overrides
         ((default_tc_opts 0 1 (stack_args example_env))\<lparr>tc_cmd_args.max_its := 3\<rparr>) 3 example_ws
         = Inr ws
       \<and> tc_loop step rmse clock ws (tc_loop_init m) = Some (s', why)
       \<and> 0 < epoch s' \<and> epoch s' \<le> 3"
proof (intro allI)
  fix step :: "nat \<Rightarrow> nat \<Rightarrow> nat" and rmse clock and m :: nat
  let ?args = "(default_tc_opts 0 1 (stack_args example_env))\<lparr>tc_cmd_args.max_its := 3\<rparr>"
  have given: "tc_cmd_args.max_its ?args \<noteq> 0" by simp
  obtain ws where copied: "tc_cmd_overrides ?args 3 example_ws = Inr ws"
    by (simp add: tc_cmd_overrides_def default_tc_opts_def Let_def)
  from training_halts_within_max_its [OF given copied, of step rmse clock m] copied
  show "\<exists>ws s' why. tc_cmd_overrides ?args 3 example_ws = Inr ws
       \<and> tc_loop step rmse clock ws (tc_loop_init m) = Some (s', why)
       \<and> 0 < epoch s' \<and> epoch s' \<le> 3"
    by auto
qed

lemma score_le_refl: "score_le a a"
  by (simp add: score_le_def split: option.splits)

lemma score_le_trans: "score_le a b \<Longrightarrow> score_le b c \<Longrightarrow> score_le a c"
  by (auto simp: score_le_def split: option.splits)

lemma tc_epoch_improved:
  assumes "improves ws (best_score s) (rmse (step (epoch s + 1) (live s)))"
  shows "tc_epoch step rmse ws s =
     s\<lparr> live := step (epoch s + 1) (live s), epoch := epoch s + 1,
        best := Some (step (epoch s + 1) (live s)),
        best_score := Some (rmse (step (epoch s + 1) (live s))),
        best_epoch := epoch s + 1, stall := 0 \<rparr>"
  using assms by (simp add: tc_epoch_def Let_def)

lemma tc_epoch_stalled:
  assumes "\<not> improves ws (best_score s) (rmse (step (epoch s + 1) (live s)))"
  shows "tc_epoch step rmse ws s =
     s\<lparr> live := step (epoch s + 1) (live s), epoch := epoch s + 1, stall := stall s + 1 \<rparr>"
  using assms by (simp add: tc_epoch_def Let_def)

lemma live_tc_epoch: "live (tc_epoch step rmse ws s) = step (epoch s + 1) (live s)"
  by (simp add: tc_epoch_def Let_def)

lemma tc_epoch_best_score:
  assumes "0 \<le> tc_ws.tolerance ws"
  shows "score_le (best_score (tc_epoch step rmse ws s)) (best_score s)"
proof (cases "improves ws (best_score s) (rmse (step (epoch s + 1) (live s)))")
  case True
  then show ?thesis using assms
    by (auto simp: tc_epoch_improved improves_def score_le_def split: option.splits)
next
  case False
  then show ?thesis by (simp add: tc_epoch_stalled score_le_refl)
qed

lemma tc_epoch_tie:
  assumes "0 \<le> tc_ws.tolerance ws"
    and "best_score s = Some (rmse (live (tc_epoch step rmse ws s)))"
  shows "best_score (tc_epoch step rmse ws s) = best_score s"
    and "best_epoch (tc_epoch step rmse ws s) = best_epoch s"
    and "best (tc_epoch step rmse ws s) = best s"
proof -
  have "\<not> improves ws (best_score s) (rmse (step (epoch s + 1) (live s)))"
    using assms by (simp add: improves_def live_tc_epoch)
  then show "best_score (tc_epoch step rmse ws s) = best_score s"
    and "best_epoch (tc_epoch step rmse ws s) = best_epoch s"
    and "best (tc_epoch step rmse ws s) = best s"
    by (simp_all add: tc_epoch_stalled)
qed

lemma tc_epoch_advance:
  assumes "best_epoch (tc_epoch step rmse ws s) \<noteq> best_epoch s"
  shows "improves ws (best_score s) (rmse (live (tc_epoch step rmse ws s)))"
    and "best (tc_epoch step rmse ws s) = Some (live (tc_epoch step rmse ws s))"
    and "best_score (tc_epoch step rmse ws s) = Some (rmse (live (tc_epoch step rmse ws s)))"
    and "best_epoch (tc_epoch step rmse ws s) = epoch (tc_epoch step rmse ws s)"
proof -
  have imp: "improves ws (best_score s) (rmse (step (epoch s + 1) (live s)))"
    using assms by (rule contrapos_np) (simp add: tc_epoch_stalled)
  then show "improves ws (best_score s) (rmse (live (tc_epoch step rmse ws s)))"
    by (simp add: live_tc_epoch)
  show "best (tc_epoch step rmse ws s) = Some (live (tc_epoch step rmse ws s))"
    and "best_score (tc_epoch step rmse ws s) = Some (rmse (live (tc_epoch step rmse ws s)))"
    and "best_epoch (tc_epoch step rmse ws s) = epoch (tc_epoch step rmse ws s)"
    by (simp_all add: tc_epoch_improved [where ws = ws and rmse = rmse and step = step, OF imp])
qed

lemma tc_epoch_keep:
  assumes "\<not> improves ws (best_score s) (rmse (live (tc_epoch step rmse ws s)))"
  shows "best (tc_epoch step rmse ws s) = best s"
  using assms by (simp add: live_tc_epoch tc_epoch_stalled)

lemma tc_after_shift:
  "tc_after step rmse ws (tc_epoch step rmse ws s) k = tc_after step rmse ws s (Suc k)"
  by (induction k) simp_all

lemma tc_loop_on_run_aux:
  assumes "tc_loop step rmse clock ws s = Some y"
  shows "\<exists>n. fst y = tc_after step rmse ws s (Suc n)"
  using assms
proof (induct rule: tc_loop.raw_induct [rotated 1, consumes 1, case_names unfold])
  case (unfold loop step rmse clock ws s y)
  show ?case
  proof (cases "tc_stopped clock ws (tc_epoch step rmse ws s)")
    case (Some why)
    then have "fst y = tc_epoch step rmse ws s" using unfold(2) by auto
    then show ?thesis by (intro exI [of _ 0]) simp
  next
    case None
    then have "loop step rmse clock ws (tc_epoch step rmse ws s) = Some y"
      using unfold(2) by simp
    from unfold(1) [OF this]
    obtain n where "fst y = tc_after step rmse ws (tc_epoch step rmse ws s) (Suc n)"
      by blast
    then have "fst y = tc_after step rmse ws s (Suc (Suc n))"
      by (simp only: tc_after_shift)
    then show ?thesis by (rule exI)
  qed
qed

lemma tc_loop_on_run:
  "tc_loop step rmse clock ws s = Some (s', why) \<Longrightarrow> \<exists>n. s' = tc_after step rmse ws s (Suc n)"
  by (drule tc_loop_on_run_aux) simp


lemma tc_after_best_score:
  assumes "0 \<le> tc_ws.tolerance ws"
  shows "score_le (best_score (tc_after step rmse ws s n)) (best_score s)"
proof (induction n)
  case 0
  show ?case by (simp add: score_le_refl)
next
  case (Suc n)
  have "score_le (best_score (tc_after step rmse ws s (Suc n))) (best_score (tc_after step rmse ws s n))"
    using tc_epoch_best_score [OF assms] by simp
  then show ?case using Suc by (rule score_le_trans)
qed

text \<open>
  Claim C6, as amended: for a tolerance that is not negative. Along the epochs of a run,
  (1) the best score never rises; (2) a validation score equal to the best score changes
  neither the best score nor the best epoch nor the best model; (3) the best epoch changes
  only in an epoch whose validation score is below the best score by more than the
  tolerance, and then the best model is a copy of the live model, the best score is its
  score and the best epoch is that epoch; (4) in every other epoch the best model stays as
  it is, whatever happens to the live model; (5) the state in which the loop stops is one of
  these states, and its best score is not above the one the loop started with.
\<close>

theorem best_score_never_rises:
  assumes tol: "0 \<le> tc_ws.tolerance ws"
  shows "score_le (best_score (tc_after step rmse ws s (Suc n)))
                  (best_score (tc_after step rmse ws s n))
     \<and> (best_score (tc_after step rmse ws s n)
            = Some (rmse (live (tc_after step rmse ws s (Suc n)))) \<longrightarrow>
          best_score (tc_after step rmse ws s (Suc n)) = best_score (tc_after step rmse ws s n)
          \<and> best_epoch (tc_after step rmse ws s (Suc n)) = best_epoch (tc_after step rmse ws s n)
          \<and> best (tc_after step rmse ws s (Suc n)) = best (tc_after step rmse ws s n))
     \<and> (best_epoch (tc_after step rmse ws s (Suc n)) \<noteq> best_epoch (tc_after step rmse ws s n) \<longrightarrow>
          improves ws (best_score (tc_after step rmse ws s n))
                      (rmse (live (tc_after step rmse ws s (Suc n))))
          \<and> best (tc_after step rmse ws s (Suc n)) = Some (live (tc_after step rmse ws s (Suc n)))
          \<and> best_score (tc_after step rmse ws s (Suc n))
              = Some (rmse (live (tc_after step rmse ws s (Suc n))))
          \<and> best_epoch (tc_after step rmse ws s (Suc n)) = epoch (tc_after step rmse ws s (Suc n)))
     \<and> (\<not> improves ws (best_score (tc_after step rmse ws s n))
                        (rmse (live (tc_after step rmse ws s (Suc n)))) \<longrightarrow>
          best (tc_after step rmse ws s (Suc n)) = best (tc_after step rmse ws s n))
     \<and> (\<forall>s' why. tc_loop step rmse clock ws s = Some (s', why) \<longrightarrow>
          (\<exists>k. s' = tc_after step rmse ws s (Suc k)) \<and> score_le (best_score s') (best_score s))"
proof (intro conjI impI allI)
  let ?a = "tc_after step rmse ws s n"
  have suc: "tc_after step rmse ws s (Suc n) = tc_epoch step rmse ws ?a" by simp
  show "score_le (best_score (tc_after step rmse ws s (Suc n))) (best_score ?a)"
    unfolding suc by (rule tc_epoch_best_score [OF tol])
  {
    assume tie: "best_score ?a = Some (rmse (live (tc_after step rmse ws s (Suc n))))"
    show "best_score (tc_after step rmse ws s (Suc n)) = best_score ?a"
      and "best_epoch (tc_after step rmse ws s (Suc n)) = best_epoch ?a"
      and "best (tc_after step rmse ws s (Suc n)) = best ?a"
      using tc_epoch_tie [where step = step and rmse = rmse and s = ?a, OF tol tie [unfolded suc]]
      by (simp_all only: suc)
  }
  {
    assume adv: "best_epoch (tc_after step rmse ws s (Suc n)) \<noteq> best_epoch ?a"
    show "improves ws (best_score ?a) (rmse (live (tc_after step rmse ws s (Suc n))))"
      and "best (tc_after step rmse ws s (Suc n)) = Some (live (tc_after step rmse ws s (Suc n)))"
      and "best_score (tc_after step rmse ws s (Suc n))
              = Some (rmse (live (tc_after step rmse ws s (Suc n))))"
      and "best_epoch (tc_after step rmse ws s (Suc n)) = epoch (tc_after step rmse ws s (Suc n))"
      using tc_epoch_advance [where step = step and rmse = rmse and s = ?a and ws = ws, OF adv [unfolded suc]]
      by (simp_all only: suc)
  }
  {
    assume "\<not> improves ws (best_score ?a) (rmse (live (tc_after step rmse ws s (Suc n))))"
    then show "best (tc_after step rmse ws s (Suc n)) = best ?a"
      unfolding suc by (rule tc_epoch_keep)
  }
  {
    fix s' why
    assume run: "tc_loop step rmse clock ws s = Some (s', why)"
    from tc_loop_on_run [OF run] obtain k where k: "s' = tc_after step rmse ws s (Suc k)" ..
    then show "\<exists>k. s' = tc_after step rmse ws s (Suc k)" ..
    show "score_le (best_score s') (best_score s)"
      unfolding k by (rule tc_after_best_score [OF tol])
  }
qed

text \<open>
  Witness for C6: the tolerance of the example workspace is \<open>1/10000\<close>; a run whose first
  epoch scores 1 and whose second epoch scores \<open>3/2\<close> keeps the best score 1.
\<close>

theorem best_score_never_rises_witness:
  "0 \<le> tc_ws.tolerance example_ws
   \<and> score_le
       (best_score (tc_after (\<lambda>e m. e) (\<lambda>m. if m = Suc 0 then 1 else 3 / 2) example_ws
          (tc_loop_init (0 :: nat)) (Suc (Suc 0))))
       (best_score (tc_after (\<lambda>e m. e) (\<lambda>m. if m = Suc 0 then 1 else 3 / 2) example_ws
          (tc_loop_init (0 :: nat)) (Suc 0)))
   \<and> best_score (tc_after (\<lambda>e m. e) (\<lambda>m. if m = Suc 0 then 1 else 3 / 2) example_ws
          (tc_loop_init (0 :: nat)) (Suc (Suc 0))) = Some 1"
proof -
  have tol: "0 \<le> tc_ws.tolerance example_ws" by (simp add: example_ws_def)
  have "best_score (tc_after (\<lambda>e m. e) (\<lambda>m. if m = Suc 0 then 1 else 3 / 2) example_ws
          (tc_loop_init (0 :: nat)) (Suc (Suc 0))) = Some 1"
    by (simp add: tc_epoch_def tc_loop_init_def improves_def example_ws_def Let_def)
  with tol best_score_never_rises [OF tol, of "\<lambda>e m. e" "\<lambda>m. if m = Suc 0 then 1 else 3 / 2"
      "tc_loop_init (0 :: nat)" "Suc 0"]
  show ?thesis by blast
qed

text \<open>
  Counterexample to C6 as stated: with the tolerance \<open>-1\<close>, which \<^verbatim>\<open>--tol -1\<close> sets, a run
  whose first epoch scores 1 and whose second epoch scores \<open>3/2\<close> has not stopped after the
  first epoch, and the second score counts as an improvement (\<open>3/2 < 1 - (-1)\<close>): the best
  score rises from 1 to \<open>3/2\<close>.
\<close>

theorem best_score_rises_counterexample:
  "best_score (tc_after (\<lambda>e m. e) (\<lambda>m. if m = Suc 0 then 1 else 3 / 2)
      (example_ws\<lparr>tc_ws.tolerance := - 1\<rparr>) (tc_loop_init (0 :: nat)) (Suc 0)) = Some 1
   \<and> tc_stopped (\<lambda>e. 0) (example_ws\<lparr>tc_ws.tolerance := - 1\<rparr>)
       (tc_after (\<lambda>e m. e) (\<lambda>m. if m = Suc 0 then 1 else 3 / 2)
          (example_ws\<lparr>tc_ws.tolerance := - 1\<rparr>) (tc_loop_init (0 :: nat)) (Suc 0)) = None
   \<and> best_score (tc_after (\<lambda>e m. e) (\<lambda>m. if m = Suc 0 then 1 else 3 / 2)
      (example_ws\<lparr>tc_ws.tolerance := - 1\<rparr>) (tc_loop_init (0 :: nat)) (Suc (Suc 0))) = Some (3 / 2)
   \<and> \<not> score_le (Some (3 / 2)) (Some 1)"
  by (simp add: tc_epoch_def tc_loop_init_def improves_def example_ws_def Let_def tc_stopped_def
        score_le_def)

section \<open>Proofs: the distributed build\<close>

text \<open>
  With MPI and SGD, the workspace handed to the training function holds the sum the
  reduction returned for this worker's \<^verbatim>\<open>validate->nnz\<close>; the other algorithms get the
  workspace with the \<^verbatim>\<open>global_validate_nnz\<close> that \<^verbatim>\<open>tc_ws_alloc\<close> left in it.
\<close>

lemma tc_cmd_train_sgd_mpi:
  assumes "SPLATT_USE_MPI B" "which_alg args = SPLATT_TC_SGD"
  shows "snd (tc_cmd_train B E args rinfo gnnz train v model ws) =
     Inr (splatt_tc E (seed args) SPLATT_TC_SGD train v model
            (ws\<lparr>ws_rinfo := Some rinfo, global_validate_nnz := gnnz\<rparr>))"
  using assms by (simp add: tc_cmd_train_def Let_def)

lemma tc_cmd_load_mpi_nnz:
  assumes "SPLATT_USE_MPI B"
    and "tc_cmd_load B L E args = (evs, Inr (train_opt, Some v, rinfo, gnnz))"
  shows "gnnz = mpi_allreduce_sum E (nnz v)"
  using assms
  by (auto simp: tc_cmd_load_def file_name_def and_then_def
           split: option.splits prod.splits sum.splits if_splits loaded.splits)

section \<open>Proofs: the seed and the clock\<close>

text \<open>
  The seed of a run. \<^verbatim>\<open>default_tc_opts\<close> takes the seed from the clock and \<^verbatim>\<open>--seed\<close>
  replaces it, so on a command line with \<^verbatim>\<open>--seed\<close> nothing the command does depends on
  the clock: the events and the outcome are those of the same surroundings at any other
  time. Whether two runs of the training functions on the same seed and input agree is a
  matter of the functions themselves, which are parameters here.
\<close>

lemma parse_tc_opt_seed:
  "parse_tc_opt L key arg (args\<lparr>seed := s\<rparr>) =
     (if key = TC_SEED then parse_tc_opt L key arg args
      else map_sum id (\<lambda>a. a\<lparr>seed := s\<rparr>) (parse_tc_opt L key arg args))"
  unfolding parse_tc_opt_def Let_def
  by (simp add: with_arg_def key_defs split: option.splits)

lemma parse_calls_seed:
  "parse_calls L calls (args\<lparr>seed := s\<rparr>) =
     (if TC_SEED \<in> fst ` set calls then parse_calls L calls args
      else map_sum id (\<lambda>a. a\<lparr>seed := s\<rparr>) (parse_calls L calls args))"
proof (induction calls arbitrary: args)
  case Nil
  show ?case by simp
next
  case (Cons c calls)
  obtain key arg where c: "c = (key, arg)" by (cases c)
  show ?case
  proof (cases "key = TC_SEED")
    case True
    then show ?thesis by (simp add: c parse_tc_opt_seed)
  next
    case False
    then show ?thesis
      by (cases "parse_tc_opt L key arg args") (simp_all add: c parse_tc_opt_seed Cons.IH id_def)
  qed
qed

lemma default_tc_opts_clock:
  "default_tc_opts t n a = (default_tc_opts t' n a)\<lparr>seed := t\<rparr>"
  by (simp add: default_tc_opts_def)

lemma argp_parse_clock:
  assumes "TC_SEED \<in> fst ` set calls"
  shows "argp_parse L calls (default_tc_opts t n a) = argp_parse L calls (default_tc_opts t' n a)"
  unfolding argp_parse_def
  by (subst default_tc_opts_clock [of t n a t']) (simp add: parse_calls_seed assms)

lemma init_rinfo_clock:
  "init_rinfo B (E\<lparr>time_now := t\<rparr>) = init_rinfo B E"
  by (simp add: init_rinfo_def cong: if_cong)

lemma tc_cmd_load_clock:
  "tc_cmd_load B L (E\<lparr>time_now := t\<rparr>) args = tc_cmd_load B L E args"
  by (simp add: tc_cmd_load_def init_rinfo_clock
        cong: option.case_cong sum.case_cong loaded.case_cong if_cong)

lemma tc_cmd_train_clock:
  "tc_cmd_train B (E\<lparr>time_now := t\<rparr>) args rinfo gnnz train v model ws =
   tc_cmd_train B E args rinfo gnnz train v model ws"
  by (simp add: tc_cmd_train_def cong: splatt_tc_type.case_cong if_cong)

lemma tc_cmd_report_clock:
  "tc_cmd_report B (E\<lparr>time_now := t\<rparr>) rinfo v ws = tc_cmd_report B E rinfo v ws"
  by (simp add: tc_cmd_report_def cong: option.case_cong if_cong)

lemma tc_cmd_test_clock:
  "tc_cmd_test (E\<lparr>time_now := t\<rparr>) args ws = tc_cmd_test E args ws"
  by (simp add: tc_cmd_test_def cong: option.case_cong if_cong)

lemma tc_cmd_finish_clock:
  "tc_cmd_finish B (E\<lparr>time_now := t\<rparr>) args rinfo v nm ws = tc_cmd_finish B E args rinfo v nm ws"
  by (simp add: tc_cmd_finish_def tc_cmd_report_clock tc_cmd_test_clock)

lemma tc_cmd_factor_clock:
  "tc_cmd_factor B (E\<lparr>time_now := t\<rparr>) args rinfo gnnz train v =
   tc_cmd_factor B E args rinfo gnnz train v"
  by (simp add: tc_cmd_factor_def tc_cmd_train_clock tc_cmd_finish_clock
        cong: sum.case_cong)

lemma tc_cmd_run_clock:
  "tc_cmd_run B L (E\<lparr>time_now := t\<rparr>) args = tc_cmd_run B L E args"
  by (simp add: tc_cmd_run_def tc_cmd_load_clock tc_cmd_factor_clock init_rinfo_clock
        cong: option.case_cong prod.case_cong)

lemma explicit_seed_hides_clock:
  assumes "TC_SEED \<in> fst ` set calls"
  shows "splatt_tc_cmd B L (E\<lparr>time_now := t\<rparr>) calls = splatt_tc_cmd B L E calls"
  using argp_parse_clock [OF assms, of L t "omp_max_threads E" "stack_args E" "time_now E"]
  by (simp add: splatt_tc_cmd_def tc_cmd_run_clock cong: sum.case_cong)

section \<open>Proofs: the reported validation statistics\<close>

text \<open>
  With MPI, the sum that \<^verbatim>\<open>MPI_Allreduce\<close> returns for \<^verbatim>\<open>validate->nnz\<close> is kept in a local
  variable of \<^verbatim>\<open>splatt_tc_cmd\<close> and copied into the workspace in \<^verbatim>\<open>case SPLATT_TC_SGD\<close> only,
  while the report after the \<^verbatim>\<open>switch\<close> prints \<^verbatim>\<open>ws->global_validate_nnz\<close> for every
  algorithm. So for the other five algorithms nothing the command does depends on what the
  reduction returns: the run is the same for any other result of it.
\<close>

lemma init_rinfo_allreduce:
  "init_rinfo B (E\<lparr>mpi_allreduce_sum := r\<rparr>) = init_rinfo B E"
  by (simp add: init_rinfo_def cong: if_cong)

lemma tc_cmd_load_allreduce:
  "tc_cmd_load B L (E\<lparr>mpi_allreduce_sum := r\<rparr>) args =
     (case tc_cmd_load B L E args of
        (e, Inl out) \<Rightarrow> (e, Inl out)
      | (e, Inr (train_opt, validate_opt, rinfo, gnnz)) \<Rightarrow>
          (e, Inr (train_opt, validate_opt, rinfo,
                   if SPLATT_USE_MPI B then r (nnz (the validate_opt)) else gnnz)))"
  by (simp add: tc_cmd_load_def init_rinfo_allreduce and_then_def file_name_def
           split: option.splits prod.splits sum.splits loaded.splits)

lemma tc_cmd_train_allreduce:
  "tc_cmd_train B (E\<lparr>mpi_allreduce_sum := r\<rparr>) args rinfo gnnz train v model ws =
   tc_cmd_train B E args rinfo gnnz train v model ws"
  by (simp add: tc_cmd_train_def cong: if_cong)

lemma tc_cmd_train_other:
  "which_alg args \<noteq> SPLATT_TC_SGD \<Longrightarrow>
     tc_cmd_train B E args rinfo gnnz train v model ws =
     tc_cmd_train B E args rinfo gnnz' train v model ws"
  by (simp add: tc_cmd_train_def)

lemma tc_cmd_finish_allreduce:
  "tc_cmd_finish B (E\<lparr>mpi_allreduce_sum := r\<rparr>) args rinfo v nm ws =
   tc_cmd_finish B E args rinfo v nm ws"
  by (simp add: tc_cmd_finish_def tc_cmd_report_def tc_cmd_test_def
        cong: option.case_cong if_cong)

lemma tc_cmd_factor_other:
  assumes "which_alg args \<noteq> SPLATT_TC_SGD"
  shows "tc_cmd_factor B (E\<lparr>mpi_allreduce_sum := r\<rparr>) args rinfo gnnz train v =
         tc_cmd_factor B E args rinfo gnnz' train v"
  using tc_cmd_train_other [OF assms, of B E rinfo gnnz train v _ _ gnnz']
  by (simp add: tc_cmd_factor_def tc_cmd_train_allreduce tc_cmd_finish_allreduce
        cong: sum.case_cong)

lemma tc_cmd_run_other:
  assumes "which_alg args \<noteq> SPLATT_TC_SGD"
  shows "tc_cmd_run B L (E\<lparr>mpi_allreduce_sum := r\<rparr>) args = tc_cmd_run B L E args"
proof (cases "tc_cmd_load B L E args")
  case (Pair e res)
  show ?thesis
  proof (cases res)
    case (Inl out)
    then show ?thesis
      using Pair by (simp add: tc_cmd_run_cases tc_cmd_load_allreduce init_rinfo_allreduce)
  next
    case (Inr x)
    obtain train_opt validate_opt rinfo gnnz where x: "x = (train_opt, validate_opt, rinfo, gnnz)"
      by (cases x) auto
    show ?thesis
    proof (cases "\<exists>train v. train_opt = Some train \<and> validate_opt = Some v")
      case True
      then obtain train v where tv: "train_opt = Some train" "validate_opt = Some v" by blast
      have "tc_cmd_factor B (E\<lparr>mpi_allreduce_sum := r\<rparr>) args rinfo g train v =
            tc_cmd_factor B E args rinfo gnnz train v" for g
        by (rule tc_cmd_factor_other [OF assms])
      then show ?thesis
        using Pair Inr x tv
        by (simp add: tc_cmd_run_cases tc_cmd_load_allreduce init_rinfo_allreduce)
    next
      case False
      then show ?thesis using Pair Inr x
        by (cases train_opt; cases validate_opt)
           (simp_all add: tc_cmd_run_cases tc_cmd_load_allreduce init_rinfo_allreduce)
    qed
  qed
qed

lemma not_sgd_ignores_allreduce:
  assumes parsed:
    "argp_parse L calls (default_tc_opts (time_now E) (omp_max_threads E) (stack_args E))
       = Inr args"
    and other: "which_alg args \<noteq> SPLATT_TC_SGD"
  shows "splatt_tc_cmd B L (E\<lparr>mpi_allreduce_sum := r\<rparr>) calls = splatt_tc_cmd B L E calls"
  using parsed by (simp add: splatt_tc_cmd_def tc_cmd_run_other [OF other])

text \<open>
  The evaluator of the spec's section 4.4, over the reals: summing the workers' error
  accumulators and their nnz counts before finalizing gives the score of one worker on the
  whole tensor, the entries of all workers together. A worker without entries adds 0 to
  both sums.
\<close>

lemma sum_sq_err_concat:
  "sum_list (map (sum_sq_err err) parts) = sum_sq_err err (concat parts)"
  by (induction parts) (simp_all add: sum_sq_err_def)

lemma sum_abs_err_concat:
  "sum_list (map (sum_abs_err err) parts) = sum_abs_err err (concat parts)"
  by (induction parts) (simp_all add: sum_abs_err_def)

lemma score_distributed_eq_single:
  "score_rmse_distributed err parts = score_rmse err (concat parts)"
  "score_mae_distributed err parts = score_mae err (concat parts)"
  by (simp_all add: score_rmse_distributed_def score_rmse_def score_mae_distributed_def
        score_mae_def sum_sq_err_concat sum_abs_err_concat length_concat)

text \<open>
  The load of the example file by the first of the two workers: one entry of three.
\<close>

lemma example_mpi_load:
  "load_validate example_libc 8
     (snd (mpi_tt_read example_mpi_env ''train.tns'' (init_rinfo example_mpi_build example_mpi_env)))
     example_file (replicate 8 0) =
   Inr (Loaded \<lparr> nmodes = 3, nnz = 1, dims = [2, 2, 2], ind = [[0], [0], [0]], vals = [1] \<rparr>)"
  by code_simp

text \<open>
  Claim C1, on the code: the first of two workers runs the command on \<^verbatim>\<open>train.tns\<close> and
  \<^verbatim>\<open>validate.tns\<close>. Of the three entries of the validation file this worker keeps one and
  the other worker two, and the reduction returns 3. With \<^verbatim>\<open>-a als\<close> the report prints the
  validation nnz 0, which is what the allocator left in the workspace; with \<^verbatim>\<open>-a sgd\<close> it
  prints the reduced 3.
\<close>

theorem validation_nnz_reduced_by_sgd_only:
  "splatt_tc_cmd example_mpi_build example_libc example_mpi_env
     [(ARGP_KEY_ARG, Some ''train.tns''), (ARGP_KEY_ARG, Some ''validate.tns''),
      (key_char CHR ''a'', Some ''als'')] =
   ([Print_header, Srand 0, Print_stats, Print_config, Print_alg SPLATT_TC_ALS,
     Train SPLATT_TC_ALS, Print_validation 0 0 0 0],
    Return EXIT_SUCCESS)
   \<and> splatt_tc_cmd example_mpi_build example_libc example_mpi_env
     [(ARGP_KEY_ARG, Some ''train.tns''), (ARGP_KEY_ARG, Some ''validate.tns''),
      (key_char CHR ''a'', Some ''sgd'')] =
   ([Print_header, Srand 0, Print_stats, Print_config, Print_alg SPLATT_TC_SGD,
     Train SPLATT_TC_SGD, Print_validation 3 0 0 0],
    Return EXIT_SUCCESS)"
  by code_simp

end
